theory Spec2Isabelle
  imports Complex_Main "HOL-Library.Sublist" "HOL-Library.Char_ord" "HOL-Library.List_Lexorder"
    "HOL-Library.Product_Lexorder" "HOL-Library.Multiset"
begin

section \<open>Arrays as the scripts use them\<close>

text \<open>
  The scripts work on NumPy arrays decoded from NIfTI files. An array is a shape together
  with its elements in row-major (C) order. Elements of a decoded volume are 64-bit
  floats; the abstraction used here takes a finite float to the real number it denotes and
  keeps the three non-finite values apart, because the two binarisations of the scripts
  (\<^verbatim>\<open>astype(bool)\<close> and \<^verbatim>\<open>> 0.5\<close>) treat them differently. Rounding of float
  arithmetic is not modelled: scores are real numbers.
\<close>

datatype scalar = Bool bool | Float real | PosInf | NegInf | NaN

record 'a ndarray =
  shape :: "nat list"
  data :: "'a list"

definition wf_array :: "'a ndarray \<Rightarrow> bool" where
  "wf_array a = (length (data a) = prod_list (shape a))"

datatype exn =
    ValueError string
  | IndexError
  | AttributeError
  | FileNotFoundError string
  | ImageFileError string
  | OSError string

text \<open>\<^verbatim>\<open>x.astype(bool)\<close>: every value other than zero is true, the non-finite ones too.\<close>

fun truthy :: "scalar \<Rightarrow> bool" where
  "truthy (Bool b) = b"
| "truthy (Float x) = (x \<noteq> 0)"
| "truthy PosInf = True"
| "truthy NegInf = True"
| "truthy NaN = True"

definition astype_bool :: "scalar ndarray \<Rightarrow> bool ndarray" where
  "astype_bool a = \<lparr>shape = shape a, data = map truthy (data a)\<rparr>"

text \<open>\<^verbatim>\<open>x > 0.5\<close>, elementwise; a comparison with NaN is false, \<^verbatim>\<open>True\<close> counts as 1.\<close>

fun gt_half_scalar :: "scalar \<Rightarrow> bool" where
  "gt_half_scalar (Bool b) = b"
| "gt_half_scalar (Float x) = (x > 1 / 2)"
| "gt_half_scalar PosInf = True"
| "gt_half_scalar NegInf = False"
| "gt_half_scalar NaN = False"

definition gt_half :: "scalar ndarray \<Rightarrow> scalar ndarray" where
  "gt_half a = \<lparr>shape = shape a, data = map (\<lambda>v. Bool (gt_half_scalar v)) (data a)\<rparr>"

subsection \<open>Broadcasting\<close>

text \<open>
  \<^verbatim>\<open>np.logical_and\<close> is a binary ufunc: its operands need not have the same shape. The
  shapes are aligned at their last axis; two extents are compatible when they are equal
  or one of them is 1, and a missing leading axis counts as 1. Incompatible shapes raise
  \<^verbatim>\<open>ValueError\<close>.
\<close>

fun broadcast_rev :: "nat list \<Rightarrow> nat list \<Rightarrow> nat list option" where
  "broadcast_rev [] ys = Some ys"
| "broadcast_rev (x # xs) [] = Some (x # xs)"
| "broadcast_rev (x # xs) (y # ys) =
     (if x = y \<or> y = 1 then map_option ((#) x) (broadcast_rev xs ys)
      else if x = 1 then map_option ((#) y) (broadcast_rev xs ys)
      else None)"

definition broadcast_shapes :: "nat list \<Rightarrow> nat list \<Rightarrow> nat list option" where
  "broadcast_shapes s t = map_option rev (broadcast_rev (rev s) (rev t))"

fun chunks :: "nat \<Rightarrow> nat \<Rightarrow> 'a list \<Rightarrow> 'a list list" where
  "chunks 0 n xs = []"
| "chunks (Suc k) n xs = take n xs # chunks k n (drop n xs)"

text \<open>
  \<open>broadcast_data t s xs\<close> are the elements, in row-major order, of the array of shape
  \<open>s\<close> with elements \<open>xs\<close> stretched to the shape \<open>t\<close>: an axis the array lacks, or has
  with extent 1, repeats the sub-array below it.
\<close>

fun broadcast_data :: "nat list \<Rightarrow> nat list \<Rightarrow> 'a list \<Rightarrow> 'a list" where
  "broadcast_data [] s xs = xs"
| "broadcast_data (d # ts) [] xs = concat (replicate d (broadcast_data ts [] xs))"
| "broadcast_data (d # ts) (e # ss) xs =
     (if length ss < length ts then concat (replicate d (broadcast_data ts (e # ss) xs))
      else if e = d then concat (map (broadcast_data ts ss) (chunks e (prod_list ss) xs))
      else concat (replicate d (broadcast_data ts ss xs)))"

definition logical_and :: "bool ndarray \<Rightarrow> bool ndarray \<Rightarrow> exn + bool ndarray" where
  "logical_and a b =
     (case broadcast_shapes (shape a) (shape b) of
        None \<Rightarrow> Inl (ValueError ''operands could not be broadcast together'')
      | Some s \<Rightarrow>
          Inr \<lparr>shape = s,
               data = map2 (\<and>) (broadcast_data s (shape a) (data a))
                                (broadcast_data s (shape b) (data b))\<rparr>)"

text \<open>\<^verbatim>\<open>.sum()\<close> of a boolean array: the number of true elements.\<close>

definition npsum :: "bool ndarray \<Rightarrow> int" where
  "npsum a = int (length (filter id (data a)))"

section \<open>The overlap scorer\<close>

text \<open>
  \<^verbatim>\<open>dice_score\<close> of \<^verbatim>\<open>dice_score.py\<close>; \<^verbatim>\<open>chat_dice.py\<close>,
  \<^verbatim>\<open>dice_score_folder.py\<close> and \<^verbatim>\<open>new_dice_score.py\<close> define the same function
  word for word. The intersection is computed before the test for an empty total, so
  operands that cannot be broadcast raise even when both are empty.
\<close>

definition dice_score :: "scalar ndarray \<Rightarrow> scalar ndarray \<Rightarrow> exn + real" where
  "dice_score seg1 seg2 =
     (let seg1 = astype_bool seg1;
          seg2 = astype_bool seg2
      in case logical_and seg1 seg2 of
           Inl e \<Rightarrow> Inl e
         | Inr both \<Rightarrow>
             (let intersection = npsum both;
                  total = npsum seg1 + npsum seg2
              in if total = 0 then Inr 1
                 else Inr (2 * real_of_int intersection / real_of_int total)))"

text \<open>
  The quantities the overlap coefficient is stated with: the number of true voxels of a
  mask, and the number of positions at which two masks of the same shape are both true.
\<close>

definition count_true :: "scalar ndarray \<Rightarrow> nat" where
  "count_true a = length (filter truthy (data a))"

definition count_both :: "scalar ndarray \<Rightarrow> scalar ndarray \<Rightarrow> nat" where
  "count_both a b =
     length (filter (\<lambda>(u, v). truthy u \<and> truthy v) (zip (data a) (data b)))"

section \<open>Python strings and numbers\<close>

text \<open>
  Strings are byte strings here; the string methods are modelled on ASCII text (the
  scripts' file names and phase labels), where a character is one byte.
\<close>

definition whitespace :: "char list" where
  "whitespace =
     [CHR 0x09, CHR 0x0A, CHR 0x0B, CHR 0x0C, CHR 0x0D,
      CHR 0x1C, CHR 0x1D, CHR 0x1E, CHR 0x1F, CHR '' '']"

text \<open>\<^verbatim>\<open>s.strip()\<close>\<close>

definition strip :: "string \<Rightarrow> string" where
  "strip s =
     rev (dropWhile (\<lambda>c. c \<in> set whitespace) (rev (dropWhile (\<lambda>c. c \<in> set whitespace) s)))"

definition lower_char :: "char \<Rightarrow> char" where
  "lower_char c =
     (case map_of (zip ''ABCDEFGHIJKLMNOPQRSTUVWXYZ'' ''abcdefghijklmnopqrstuvwxyz'') c of
        Some d \<Rightarrow> d
      | None \<Rightarrow> c)"

text \<open>\<^verbatim>\<open>s.lower()\<close>\<close>

definition lower :: "string \<Rightarrow> string" where
  "lower s = map lower_char s"

text \<open>\<^verbatim>\<open>sub in s\<close>, and \<^verbatim>\<open>str.contains\<close> for a pattern without regex characters.\<close>

fun str_contains :: "string \<Rightarrow> string \<Rightarrow> bool" where
  "str_contains [] sub = (sub = [])"
| "str_contains (c # cs) sub = (prefix sub (c # cs) \<or> str_contains cs sub)"

text \<open>\<^verbatim>\<open>s.endswith(suf)\<close>\<close>

definition endswith :: "string \<Rightarrow> string \<Rightarrow> bool" where
  "endswith s suf = prefix (rev suf) (rev s)"

text \<open>\<^verbatim>\<open>s.replace(old, new)\<close>: every occurrence, left to right, without overlap.\<close>

fun replace :: "string \<Rightarrow> string \<Rightarrow> string \<Rightarrow> string" where
  "replace [] new s = new @ concat (map (\<lambda>c. c # new) s)"
| "replace (p # ps) new [] = []"
| "replace (p # ps) new (c # cs) =
     (if prefix (p # ps) (c # cs) then new @ replace (p # ps) new (drop (length ps) cs)
      else c # replace (p # ps) new cs)"

text \<open>\<^verbatim>\<open>s.split(sep, 1)\<close> for a one-character separator: at most one split.\<close>

definition split_once :: "char \<Rightarrow> string \<Rightarrow> string list" where
  "split_once sep s =
     (case dropWhile (\<lambda>c. c \<noteq> sep) s of
        [] \<Rightarrow> [s]
      | _ # rest \<Rightarrow> [takeWhile (\<lambda>c. c \<noteq> sep) s, rest])"

definition digit_value :: "char \<Rightarrow> nat option" where
  "digit_value c = map_of (zip ''0123456789'' [0, 1, 2, 3, 4, 5, 6, 7, 8, 9]) c"

text \<open>
  \<^verbatim>\<open>int(s)\<close> on ASCII text: surrounding whitespace, an optional sign, then decimal
  digits, where single underscores may stand between digits. \<open>None\<close> is the
  \<^verbatim>\<open>ValueError\<close>.
\<close>

fun int_digits :: "nat \<Rightarrow> string \<Rightarrow> nat option" where
  "int_digits acc [] = Some acc"
| "int_digits acc [c] = map_option (\<lambda>d. 10 * acc + d) (digit_value c)"
| "int_digits acc (c # c' # cs) =
     (case digit_value c of
        None \<Rightarrow> None
      | Some d \<Rightarrow>
          if c' = CHR ''_'' then (if cs = [] then None else int_digits (10 * acc + d) cs)
          else int_digits (10 * acc + d) (c' # cs))"

definition nat_literal :: "string \<Rightarrow> nat option" where
  "nat_literal s = (if s = [] then None else int_digits 0 s)"

definition py_int :: "string \<Rightarrow> int option" where
  "py_int s =
     (case strip s of
        [] \<Rightarrow> None
      | c # cs \<Rightarrow>
          if c = CHR ''-'' then map_option (\<lambda>n. - int n) (nat_literal cs)
          else if c = CHR ''+'' then map_option int (nat_literal cs)
          else map_option int (nat_literal (c # cs)))"

definition digit_char :: "nat \<Rightarrow> char" where
  "digit_char n = ''0123456789'' ! n"

fun str_nat :: "nat \<Rightarrow> string" where
  "str_nat n = (if n < 10 then [digit_char n] else str_nat (n div 10) @ [digit_char (n mod 10)])"

text \<open>\<^verbatim>\<open>str(i)\<close>, as an f-string formats an integer.\<close>

definition str_int :: "int \<Rightarrow> string" where
  "str_int i = (if i < 0 then CHR ''-'' # str_nat (nat (- i)) else str_nat (nat i))"

text \<open>
  \<^verbatim>\<open>round(x, n)\<close> on the real number a float denotes: the nearest multiple of
  \<open>10\<^sup>-\<^sup>n\<close>, a tie going to the even neighbour.
\<close>

definition py_round :: "real \<Rightarrow> nat \<Rightarrow> real" where
  "py_round x n =
     (let s = x * 10 ^ n;
          f = \<lfloor>s\<rfloor>;
          d = s - of_int f
      in of_int (if d < 1 / 2 then f else if 1 / 2 < d then f + 1
                 else if even f then f else f + 1) / 10 ^ n)"

text \<open>\<^verbatim>\<open>os.path.join\<close> and \<^verbatim>\<open>os.path.basename\<close>, with \<open>/\<close> as the separator.\<close>

definition path_join :: "string \<Rightarrow> string \<Rightarrow> string" where
  "path_join a b =
     (if prefix ''/'' b then b
      else if a = [] \<or> endswith a ''/'' then a @ b
      else a @ ''/'' @ b)"

definition basename :: "string \<Rightarrow> string" where
  "basename p = rev (takeWhile (\<lambda>c. c \<noteq> CHR ''/'') (rev p))"

section \<open>Volumes on disk\<close>

text \<open>
  The file system the scripts read: a path holds a decodable volume, or a file that
  \<^verbatim>\<open>nibabel\<close> cannot decode, or nothing.
\<close>

datatype disk_file = Nifti "scalar ndarray" | Undecodable

type_synonym filesystem = "string \<rightharpoonup> disk_file"

definition exists :: "filesystem \<Rightarrow> string \<Rightarrow> bool" where
  "exists fs path = (fs path \<noteq> None)"

definition load_nifti :: "filesystem \<Rightarrow> string \<Rightarrow> exn + scalar ndarray" where
  "load_nifti fs path =
     (case fs path of
        None \<Rightarrow> Inl (FileNotFoundError path)
      | Some Undecodable \<Rightarrow> Inl (ImageFileError path)
      | Some (Nifti a) \<Rightarrow> Inr a)"

section \<open>Batch comparison of named tumours (\<^verbatim>\<open>chat_dice.py\<close>)\<close>

text \<open>
  One row of the summary table. The two path cells hold the path, or the
  \<^verbatim>\<open>Not found\<close> marker; the score cell holds the rounded score, or \<^verbatim>\<open>N/A\<close>,
  or (in the folder script below) \<^verbatim>\<open>ERROR\<close>; the note is one of the three texts of
  the script, the shape-mismatch text keeping the two shapes it prints.
\<close>

datatype path_cell = Path string | NotFound

datatype score_cell = Score real | NA | ERROR

datatype diagnostic = MissingFiles | ShapeMismatch "nat list" "nat list" | OK

record result_row =
  tumor :: string
  modality1_path :: path_cell
  modality2_path :: path_cell
  dice_score_cell :: score_cell
  note_cell :: diagnostic

text \<open>
  The body of the loop over \<^verbatim>\<open>tumor_list\<close>. A file that exists and cannot be decoded
  raises out of the function: the loop has no handler.
\<close>

definition evaluate_tumor ::
  "filesystem \<Rightarrow> string \<Rightarrow> string \<Rightarrow> string \<Rightarrow> string \<Rightarrow> string \<Rightarrow> string \<Rightarrow> exn + result_row"
where
  "evaluate_tumor fs base_dir modality1_dir series_id1 modality2_dir series_id2 tumour =
     (let path1 = path_join (path_join base_dir modality1_dir)
                    (series_id1 @ ''_'' @ tumour @ ''.nii.gz'');
          path2 = path_join (path_join base_dir modality2_dir)
                    (series_id2 @ ''_'' @ tumour @ ''.nii.gz'')
      in if \<not> exists fs path1 \<or> \<not> exists fs path2 then
           Inr \<lparr>tumor = tumour,
                modality1_path = (if exists fs path1 then Path path1 else NotFound),
                modality2_path = (if exists fs path2 then Path path2 else NotFound),
                dice_score_cell = NA,
                note_cell = MissingFiles\<rparr>
         else
           case load_nifti fs path1 of
             Inl e \<Rightarrow> Inl e
           | Inr vol1 \<Rightarrow>
               (case load_nifti fs path2 of
                  Inl e \<Rightarrow> Inl e
                | Inr vol2 \<Rightarrow>
                    (let seg1 = gt_half vol1;
                         seg2 = gt_half vol2
                     in if shape seg1 \<noteq> shape seg2 then
                          Inr \<lparr>tumor = tumour,
                               modality1_path = Path path1,
                               modality2_path = Path path2,
                               dice_score_cell = NA,
                               note_cell = ShapeMismatch (shape seg1) (shape seg2)\<rparr>
                        else
                          case dice_score seg1 seg2 of
                            Inl e \<Rightarrow> Inl e
                          | Inr dice \<Rightarrow>
                              Inr \<lparr>tumor = tumour,
                                   modality1_path = Path path1,
                                   modality2_path = Path path2,
                                   dice_score_cell = Score (py_round dice 4),
                                   note_cell = OK\<rparr>)))"

fun for_each :: "('a \<Rightarrow> exn + 'b) \<Rightarrow> 'a list \<Rightarrow> exn + 'b list" where
  "for_each f [] = Inr []"
| "for_each f (x # xs) =
     (case f x of
        Inl e \<Rightarrow> Inl e
      | Inr r \<Rightarrow> (case for_each f xs of Inl e \<Rightarrow> Inl e | Inr rs \<Rightarrow> Inr (r # rs)))"

text \<open>
  \<^verbatim>\<open>enhanced_dice_evaluation\<close>. After the loop the table is written to the summary
  file in \<^verbatim>\<open>base_dir\<close> and returned. \<open>writable\<close> says whether a file can be created
  at a path; \<^verbatim>\<open>to_csv\<close> raises \<^verbatim>\<open>OSError\<close> when it cannot, for one when
  \<^verbatim>\<open>base_dir\<close> does not exist. The result is the path of the file written together
  with the rows, which are the table returned. The progress messages are left out.
\<close>

definition enhanced_dice_evaluation ::
  "filesystem \<Rightarrow> (string \<Rightarrow> bool) \<Rightarrow> string \<Rightarrow> string \<Rightarrow> string \<Rightarrow> string \<Rightarrow> string
     \<Rightarrow> string list \<Rightarrow> int \<Rightarrow> exn + (string \<times> result_row list)"
where
  "enhanced_dice_evaluation fs writable base_dir modality1 series_id1 modality2 series_id2
       tumor_list patient_id =
     (let modality1_dir = modality1 @ ''_pat'' @ str_int patient_id @ ''_segmentations'';
          modality2_dir = modality2 @ ''_pat'' @ str_int patient_id @ ''_segmentations''
      in case for_each
                (evaluate_tumor fs base_dir modality1_dir series_id1 modality2_dir series_id2)
                tumor_list of
           Inl e \<Rightarrow> Inl e
         | Inr results \<Rightarrow>
             (let output_path =
                    path_join base_dir
                      (''dice_summary_pat'' @ str_int patient_id @ ''_'' @ modality1 @ ''_''
                         @ series_id1 @ ''_vs_'' @ modality2 @ ''_'' @ series_id2 @ ''.csv'')
              in if writable output_path then Inr (output_path, results)
                 else Inl (OSError output_path)))"

section \<open>Comparison of a folder against one ground truth (\<^verbatim>\<open>dice_score_folder.py\<close>)\<close>

text \<open>
  The rows of the volume table after \<^verbatim>\<open>dropna()\<close>; its series column is numeric.
\<close>

record volume_row =
  vol_series_id :: real
  vol_name :: string
  volume :: real

datatype itv_cell = Volume real | NotAvailable | ErrorText exn

record folder_row =
  filename :: string
  folder_dice_score :: score_cell
  itv_volume_mm3 :: itv_cell

text \<open>
  The \<^verbatim>\<open>try\<close> block of the loop. The mask of the file is thresholded and scored
  against the ground truth at once: the script does not compare the two shapes. What
  raises in the block (a file that cannot be decoded, operands that cannot be broadcast,
  a file name without a leading integer or without an underscore) is caught by the
  handler, which records an \<^verbatim>\<open>ERROR\<close> row.
\<close>

definition score_file ::
  "filesystem \<Rightarrow> volume_row list \<Rightarrow> scalar ndarray \<Rightarrow> string \<Rightarrow> string \<Rightarrow> exn + folder_row"
where
  "score_file fs volume_df gt_mask file_path file =
     (case load_nifti fs file_path of
        Inl e \<Rightarrow> Inl e
      | Inr vol \<Rightarrow>
          (let pred_mask = gt_half vol
           in case dice_score gt_mask pred_mask of
                Inl e \<Rightarrow> Inl e
              | Inr score \<Rightarrow>
                  (let parts = split_once CHR ''_'' (replace ''.nii.gz'' [] file)
                   in case py_int (hd parts) of
                        None \<Rightarrow> Inl (ValueError ''invalid literal for int()'')
                      | Some series_id \<Rightarrow>
                          (case tl parts of
                             [] \<Rightarrow> Inl IndexError
                           | tumour_name # _ \<Rightarrow>
                               (let row = filter (\<lambda>r. vol_series_id r = of_int series_id \<and>
                                                      vol_name r = tumour_name) volume_df
                                in Inr \<lparr>filename = file,
                                        folder_dice_score = Score (py_round score 4),
                                        itv_volume_mm3 =
                                          (case row of
                                             [] \<Rightarrow> NotAvailable
                                           | r # _ \<Rightarrow> Volume (py_round (volume r) 1))\<rparr>)))))"

definition compare_file ::
  "filesystem \<Rightarrow> volume_row list \<Rightarrow> scalar ndarray \<Rightarrow> string \<Rightarrow> string \<Rightarrow> string
     \<Rightarrow> folder_row option"
where
  "compare_file fs volume_df gt_mask folder_path gt_filename file =
     (let file_path = path_join folder_path file
      in if \<not> (endswith file ''.nii'' \<or> endswith file ''.nii.gz'') then None
         else if file = gt_filename then None
         else case score_file fs volume_df gt_mask file_path file of
                Inr row \<Rightarrow> Some row
              | Inl e \<Rightarrow>
                  Some \<lparr>filename = file, folder_dice_score = ERROR,
                        itv_volume_mm3 = ErrorText e\<rparr>)"

text \<open>
  The script: \<open>listing\<close> is what \<^verbatim>\<open>os.listdir(folder_path)\<close> returns. Loading the
  ground truth is outside the loop and its \<^verbatim>\<open>try\<close>.
\<close>

definition dice_score_folder ::
  "filesystem \<Rightarrow> string list \<Rightarrow> volume_row list \<Rightarrow> string \<Rightarrow> string \<Rightarrow> exn + folder_row list"
where
  "dice_score_folder fs listing volume_df ground_truth_path folder_path =
     (case load_nifti fs ground_truth_path of
        Inl e \<Rightarrow> Inl e
      | Inr gt \<Rightarrow>
          (let gt_mask = gt_half gt;
               gt_filename = basename ground_truth_path
           in Inr (List.map_filter
                     (compare_file fs volume_df gt_mask folder_path gt_filename) listing)))"

section \<open>Tables of structure records\<close>

text \<open>
  One row of the \<^verbatim>\<open>structure_stats\<close> table of \<^verbatim>\<open>tumour_displacement.py\<close>, after its
  line 6 selected the columns and called \<^verbatim>\<open>dropna()\<close>: the series identifier, the name
  of the structure and the centre of mass. The columns \<^verbatim>\<open>x\<close>, \<^verbatim>\<open>y\<close>, \<^verbatim>\<open>z\<close> are the
  fields \<open>x_col\<close>, \<open>y_col\<close>, \<open>z_col\<close>. This table is modelled without missing cells (so
  \<^verbatim>\<open>dropna()\<close> keeps every row) and its coordinates are real numbers.

  \<^verbatim>\<open>pd.read_csv\<close> gives the series column one type for the whole table: numbers when
  every cell parses as a number, strings otherwise.
\<close>

record 'k row =
  series_id :: 'k
  name :: string
  x_col :: real
  y_col :: real
  z_col :: real

datatype frame = NumericFrame "real row list" | ObjectFrame "string row list"

definition PHASE_ORDER :: "string list" where
  "PHASE_ORDER = [''0in'', ''25in'', ''50in'', ''75in'', ''100in'', ''75ex'', ''50ex'', ''25ex'']"

text \<open>
  The code of a value in a \<^verbatim>\<open>pd.Categorical\<close> with the given categories: its position
  among them. A value that is no category becomes NaN, which \<^verbatim>\<open>sort_values\<close> puts
  last; it gets the position after the last category.
\<close>

fun index_of :: "'a list \<Rightarrow> 'a \<Rightarrow> nat" where
  "index_of [] v = 0"
| "index_of (u # us) v = (if u = v then 0 else Suc (index_of us v))"

subsection \<open>Cells that may be missing\<close>

text \<open>
  The two scripts that compute the displacement along z read their table and use it as it
  is: they drop no row with a missing cell. A cell of a float column is a finite number,
  an infinity, or NaN, which is also what a missing cell is read as. A cell of a string
  column is a string or missing (\<open>None\<close>).

  \<open>fsub\<close> is the subtraction of floats: NaN whenever an operand is NaN or the two are
  the same infinity. On finite operands it is the subtraction of the reals they denote;
  rounding and overflow are not modelled.
\<close>

datatype float64 = Finite real | PlusInfinity | MinusInfinity | NotANumber

fun fsub :: "float64 \<Rightarrow> float64 \<Rightarrow> float64" where
  "fsub NotANumber b = NotANumber"
| "fsub a NotANumber = NotANumber"
| "fsub (Finite a) (Finite b) = Finite (a - b)"
| "fsub (Finite a) PlusInfinity = MinusInfinity"
| "fsub (Finite a) MinusInfinity = PlusInfinity"
| "fsub PlusInfinity PlusInfinity = NotANumber"
| "fsub PlusInfinity b = PlusInfinity"
| "fsub MinusInfinity MinusInfinity = NotANumber"
| "fsub MinusInfinity b = MinusInfinity"

subsection \<open>Sorting a table\<close>

text \<open>
  \<^verbatim>\<open>sort_values\<close> sorts with quicksort by default and promises no order among rows of
  equal key. The sort is therefore a parameter of the functions that call it: any function
  that, for a key, returns the rows it was given in an order where the keys ascend.
  \<open>sort_key\<close> is one such function.
\<close>

definition sorts_by_key :: "(('a \<Rightarrow> 'k::linorder) \<Rightarrow> 'a list \<Rightarrow> 'a list) \<Rightarrow> bool" where
  "sorts_by_key sort_values =
     (\<forall>key rows. mset (sort_values key rows) = mset rows \<and>
                 sorted (map key (sort_values key rows)))"

section \<open>Displacement along z for one structure (\<^verbatim>\<open>displacement_plotter_realdata.py\<close>)\<close>

text \<open>
  One row of the table the script reads, with the columns \<^verbatim>\<open>series_id\<close>,
  \<^verbatim>\<open>name\<close> and \<^verbatim>\<open>z\<close>; the first two are string columns, the third a float column.
  A table whose series column is numeric is \<open>NumericSeries\<close>: line 39 raises on it
  whatever its rows.
\<close>

record stats_row =
  csv_series_id :: "string option"
  csv_name :: "string option"
  csv_z :: float64

datatype stats_table = NumericSeries | StringSeries "stats_row list"

text \<open>The position of a cell among the categories \<open>PHASE_ORDER\<close>; a missing cell is last.\<close>

definition phase_code :: "string option \<Rightarrow> nat" where
  "phase_code c = (case c of None \<Rightarrow> length PHASE_ORDER | Some l \<Rightarrow> index_of PHASE_ORDER l)"

text \<open>
  Lines 36 to 43 of \<^verbatim>\<open>process_structure_csv\<close>: the rows of the structure, their
  labels stripped and lowercased (a missing label stays missing), those with a label of
  \<open>PHASE_ORDER\<close> kept and sorted as a categorical with the categories \<open>PHASE_ORDER\<close>.
\<close>

definition select_phases ::
  "((stats_row \<Rightarrow> nat) \<Rightarrow> stats_row list \<Rightarrow> stats_row list) \<Rightarrow> string \<Rightarrow> stats_row list
     \<Rightarrow> stats_row list"
where
  "select_phases sort_values tumour_name rows =
     (let df = filter (\<lambda>r. csv_name r = Some tumour_name) rows;
          df = map (\<lambda>r. r\<lparr>csv_series_id := map_option (\<lambda>s. lower (strip s)) (csv_series_id r)\<rparr>)
                 df;
          df = filter (\<lambda>r. case csv_series_id r of
                               None \<Rightarrow> False
                             | Some l \<Rightarrow> l \<in> set PHASE_ORDER) df
      in sort_values (\<lambda>r. phase_code (csv_series_id r)) df)"

text \<open>
  \<open>tables\<close> are the CSV files on disk. On a table whose series column is numeric the
  \<^verbatim>\<open>.str\<close> accessor raises \<^verbatim>\<open>AttributeError\<close>. The result is the table of the
  columns \<^verbatim>\<open>series_id\<close> and \<^verbatim>\<open>z_displacement\<close>.
\<close>

definition process_structure_csv ::
  "((stats_row \<Rightarrow> nat) \<Rightarrow> stats_row list \<Rightarrow> stats_row list) \<Rightarrow> (string \<rightharpoonup> stats_table)
     \<Rightarrow> string \<Rightarrow> string \<Rightarrow> string \<Rightarrow> exn + (string option \<times> float64) list"
where
  "process_structure_csv sort_values tables file_path tumour_name reference_phase =
     (case tables file_path of
        None \<Rightarrow> Inl (FileNotFoundError file_path)
      | Some NumericSeries \<Rightarrow> Inl AttributeError
      | Some (StringSeries rows) \<Rightarrow>
          (let df = select_phases sort_values tumour_name rows
           in if Some reference_phase \<notin> set (map csv_series_id df) then
                Inl (ValueError (''Reference phase '' @ [CHR 0x27] @ reference_phase @ [CHR 0x27]
                                   @ '' not found in '' @ file_path))
              else
                case filter (\<lambda>r. csv_series_id r = Some reference_phase) df of
                  [] \<Rightarrow> Inl IndexError
                | ref # _ \<Rightarrow>
                    Inr (map (\<lambda>r. (csv_series_id r, fsub (csv_z r) (csv_z ref))) df)))"

section \<open>Displacement along z from axis rows (\<^verbatim>\<open>batch_displacement_processor.py\<close>)\<close>

text \<open>
  One row of the table, with the string columns \<^verbatim>\<open>phase\<close> and \<^verbatim>\<open>axis\<close> and the
  float column \<^verbatim>\<open>com\<close>.
\<close>

record com_row =
  phase :: "string option"
  axis :: "string option"
  com :: float64

text \<open>
  The key of \<^verbatim>\<open>sort_values(by='phase')\<close> on a column of strings: the strings are
  compared as strings, and a missing cell comes after every string.
\<close>

definition phase_key :: "com_row \<Rightarrow> bool \<times> string" where
  "phase_key r = (case phase r of None \<Rightarrow> (True, []) | Some s \<Rightarrow> (False, s))"

text \<open>\<^verbatim>\<open>compute_displacement\<close>.\<close>

definition compute_displacement ::
  "((com_row \<Rightarrow> bool \<times> string) \<Rightarrow> com_row list \<Rightarrow> com_row list) \<Rightarrow> com_row list \<Rightarrow> string
     \<Rightarrow> exn + (string option \<times> float64) list"
where
  "compute_displacement sort_values df reference_phase =
     (let df = filter (\<lambda>r. axis r = Some ''z'') df;
          df = sort_values phase_key df
      in if Some reference_phase \<notin> set (map phase df) then
           Inl (ValueError (''Reference phase '' @ [CHR 0x27] @ reference_phase @ [CHR 0x27]
                              @ '' not found in data.''))
         else
           case filter (\<lambda>r. phase r = Some reference_phase) df of
             [] \<Rightarrow> Inl IndexError
           | ref # _ \<Rightarrow> Inr (map (\<lambda>r. (phase r, fsub (com r) (com ref))) df))"

section \<open>Displacement of three tumours (\<^verbatim>\<open>tumour_displacement.py\<close>)\<close>

text \<open>
  Python's \<^verbatim>\<open>float\<close> is a parameter \<open>to_float\<close> of the model: \<open>to_float s = None\<close>
  when \<^verbatim>\<open>float(s)\<close> raises. \<open>integer_literal\<close> is one such function, which agrees with
  \<^verbatim>\<open>float\<close> on the strings that \<^verbatim>\<open>int\<close> accepts and on strings without a digit;
  the examples use it.
\<close>

definition integer_literal :: "string \<Rightarrow> real option" where
  "integer_literal s = map_option real_of_int (py_int s)"

definition is_numeric :: "(string \<Rightarrow> real option) \<Rightarrow> string \<Rightarrow> bool" where
  "is_numeric to_float s = (case to_float s of Some _ \<Rightarrow> True | None \<Rightarrow> False)"

text \<open>
  Lines 9 to 11: when the series column has the dtype \<^verbatim>\<open>object\<close>, the rows whose label
  contains \<^verbatim>\<open>average\<close> go. Up to pandas 2 a column of strings has that dtype; from
  pandas 3 its dtype is \<^verbatim>\<open>str\<close>, the test of line 9 is false and no row goes.
  \<open>object_dtype\<close> says which holds: it is the value of the test on a column of strings.
\<close>

definition drop_average :: "bool \<Rightarrow> frame \<Rightarrow> frame" where
  "drop_average object_dtype df =
     (case df of
        NumericFrame rows \<Rightarrow> NumericFrame rows
      | ObjectFrame rows \<Rightarrow>
          if object_dtype then
            ObjectFrame (filter (\<lambda>r. \<not> str_contains (lower (series_id r)) ''average'') rows)
          else ObjectFrame rows)"

text \<open>
  The series column after the ordering branch: a categorical value (\<open>None\<close> is NaN, a
  label that is no category), a float, or the string as it was.
\<close>

datatype series_key = Category "string option" | Number real | Label string

definition with_series_id :: "'a \<Rightarrow> 'k row \<Rightarrow> 'a row" where
  "with_series_id k r =
     \<lparr>series_id = k, name = name r, x_col = x_col r, y_col = y_col r, z_col = z_col r\<rparr>"

text \<open>\<^verbatim>\<open>df['series_id'].astype(float)\<close> on strings: \<^verbatim>\<open>float\<close> of each, or its error.\<close>

definition astype_float ::
  "(string \<Rightarrow> real option) \<Rightarrow> string row list \<Rightarrow> exn + real row list" where
  "astype_float to_float rows =
     for_each (\<lambda>r. case to_float (series_id r) of
                      None \<Rightarrow> Inl (ValueError ''could not convert string to float'')
                    | Some v \<Rightarrow> Inr (with_series_id v r)) rows"

text \<open>
  Lines 22 to 39, the choice of the ordering and the sort. On a numeric column
  \<^verbatim>\<open>is_numeric\<close> holds of every cell. The test \<^verbatim>\<open>'series_id' in df.columns\<close> is
  true: line 6 selected the column.
\<close>

definition order_rows :: "(string \<Rightarrow> real option) \<Rightarrow> frame \<Rightarrow> exn + series_key row list" where
  "order_rows to_float df =
     (case df of
        NumericFrame rows \<Rightarrow>
          Inr (map (\<lambda>r. with_series_id (Number (series_id r)) r) (sort_key series_id rows))
      | ObjectFrame rows \<Rightarrow>
          if \<not> list_all (\<lambda>r. is_numeric to_float (series_id r)) rows then
            (let phase_order =
                   [''0in'', ''25in'', ''50in'', ''75in'', ''100in'', ''75ex'', ''50ex'', ''25ex''];
                 existing_phases = filter (\<lambda>p. p \<in> set (map series_id rows)) phase_order;
                 categorical = (\<lambda>r. if series_id r \<in> set existing_phases
                                      then Some (series_id r) else None)
             in Inr (map (\<lambda>r. with_series_id (Category (categorical r)) r)
                       (sort_key (\<lambda>r. index_of existing_phases (series_id r)) rows)))
          else if list_all (\<lambda>r. is_numeric to_float (series_id r)) rows then
            (case astype_float to_float rows of
               Inl e \<Rightarrow> Inl e
             | Inr floats \<Rightarrow>
                 Inr (map (\<lambda>r. with_series_id (Number (series_id r)) r)
                        (sort_key series_id floats)))
          else
            Inr (map (\<lambda>r. with_series_id (Label (series_id r)) r) (sort_key series_id rows)))"

text \<open>
  The table after lines 9 to 39. \<^verbatim>\<open>sort_values\<close> promises no order among rows of equal
  key other than NaN, whose rows it puts last in the order they had; \<open>sort_key\<close> keeps
  the order of all rows of equal key.
\<close>

definition ordered_frame ::
  "bool \<Rightarrow> (string \<Rightarrow> real option) \<Rightarrow> frame \<Rightarrow> exn + series_key row list" where
  "ordered_frame object_dtype to_float df = order_rows to_float (drop_average object_dtype df)"

definition tumour_names :: "string list" where
  "tumour_names = [''lower_tumour'', ''middle_tumour'', ''upper_tumour'']"

text \<open>Line 53: \<^verbatim>\<open>(tumour_data[['x', 'y', 'z']]**2).sum(axis=1)**0.5\<close>, for one row.\<close>

definition euclidean :: "'k row \<Rightarrow> real" where
  "euclidean r = ((x_col r)\<^sup>2 + (y_col r)\<^sup>2 + (z_col r)\<^sup>2) powr (1 / 2)"

text \<open>
  The body of the loop over the tumours: the points handed to the plot of one tumour,
  or \<open>None\<close> when the table has no row of it. Drawing is not modelled.
\<close>

definition displacement_series :: "'k row list \<Rightarrow> string \<Rightarrow> ('k \<times> real) list option" where
  "displacement_series df tumour =
     (let tumour_data = filter (\<lambda>r. name r = tumour) df
      in if length tumour_data > 0
         then Some (map (\<lambda>r. (series_id r, euclidean r)) tumour_data)
         else None)"

text \<open>
  The phase category of a label, as the ordering by phase assigns it: the label itself
  when it is one of the canonical labels as written, NaN otherwise. The rank of a key of
  the ordered table is the position of its category in the canonical sequence, and the
  position after the last phase for NaN.
\<close>

definition phase_category :: "string \<Rightarrow> string option" where
  "phase_category l = (if l \<in> set PHASE_ORDER then Some l else None)"

definition category_rank :: "series_key \<Rightarrow> nat" where
  "category_rank k = (case k of Category c \<Rightarrow> phase_code c | Number v \<Rightarrow> 0 | Label l \<Rightarrow> 0)"

section \<open>Example inputs\<close>

definition mask_a :: "scalar ndarray" where
  "mask_a = \<lparr>shape = [2, 2], data = [Bool True, Bool True, Bool False, Bool True]\<rparr>"

definition mask_b :: "scalar ndarray" where
  "mask_b = \<lparr>shape = [2, 2], data = [Bool True, Bool False, Bool False, Bool True]\<rparr>"

text \<open>An all-false volume of 4 by 4 by 4 voxels.\<close>

definition empty_mask :: "scalar ndarray" where
  "empty_mask = \<lparr>shape = [4, 4, 4], data = replicate 64 (Float 0)\<rparr>"

text \<open>
  A ground truth of 2 by 2 by 2 voxels and a volume of a single slice, 2 by 2 by 1, both
  all foreground, in one folder.
\<close>

definition gt_volume :: "scalar ndarray" where
  "gt_volume = \<lparr>shape = [2, 2, 2], data = replicate 8 (Float 1)\<rparr>"

definition slice_volume :: "scalar ndarray" where
  "slice_volume = \<lparr>shape = [2, 2, 1], data = replicate 4 (Float 1)\<rparr>"

definition folder_fs :: filesystem where
  "folder_fs = [''seg/30_middle_tumour.nii.gz'' \<mapsto> Nifti gt_volume,
                ''seg/31_middle_tumour.nii.gz'' \<mapsto> Nifti slice_volume]"

text \<open>Volumes holding the intensity 0.3, which is not zero and not above 0.5.\<close>

definition faint :: "scalar ndarray" where
  "faint = \<lparr>shape = [1], data = [Float (3 / 10)]\<rparr>"

definition faint_and_bright :: "scalar ndarray" where
  "faint_and_bright = \<lparr>shape = [2], data = [Float (3 / 10), Float 1]\<rparr>"

definition bright :: "scalar ndarray" where
  "bright = \<lparr>shape = [2], data = [Float 1, Float 1]\<rparr>"

text \<open>
  The table of the end-to-end scenario, its rows in the order 25in, 0in, and the same
  measurements as axis rows.
\<close>

definition t1_rows :: "stats_row list" where
  "t1_rows =
     [\<lparr>csv_series_id = Some ''25in'', csv_name = Some ''t1'', csv_z = Finite (25 / 2)\<rparr>,
      \<lparr>csv_series_id = Some ''0in'', csv_name = Some ''t1'', csv_z = Finite 10\<rparr>]"

definition t1_axis_rows :: "com_row list" where
  "t1_axis_rows =
     [\<lparr>phase = Some ''25in'', axis = Some ''z'', com = Finite (25 / 2)\<rparr>,
      \<lparr>phase = Some ''0in'', axis = Some ''z'', com = Finite 10\<rparr>]"

text \<open>The same tables with the z cell of the row of 0in left empty.\<close>

definition gap_rows :: "stats_row list" where
  "gap_rows =
     [\<lparr>csv_series_id = Some ''25in'', csv_name = Some ''t1'', csv_z = Finite (25 / 2)\<rparr>,
      \<lparr>csv_series_id = Some ''0in'', csv_name = Some ''t1'', csv_z = NotANumber\<rparr>]"

definition gap_axis_rows :: "com_row list" where
  "gap_axis_rows =
     [\<lparr>phase = Some ''25in'', axis = Some ''z'', com = Finite (25 / 2)\<rparr>,
      \<lparr>phase = Some ''0in'', axis = Some ''z'', com = NotANumber\<rparr>]"

text \<open>Axis rows at the phases 25in, 100in and 0in.\<close>

definition inhale_axis_rows :: "com_row list" where
  "inhale_axis_rows =
     [\<lparr>phase = Some ''25in'', axis = Some ''z'', com = Finite 5\<rparr>,
      \<lparr>phase = Some ''100in'', axis = Some ''z'', com = Finite 7\<rparr>,
      \<lparr>phase = Some ''0in'', axis = Some ''z'', com = Finite 1\<rparr>]"

text \<open>A table with the labels \<open>'' 25IN ''\<close>, \<open>foo\<close> and \<open>0in\<close>.\<close>

definition untidy_rows :: "string row list" where
  "untidy_rows =
     [\<lparr>series_id = '' 25IN '', name = ''lower_tumour'', x_col = 3, y_col = 4, z_col = 12\<rparr>,
      \<lparr>series_id = ''foo'', name = ''lower_tumour'', x_col = 0, y_col = 0, z_col = 1\<rparr>,
      \<lparr>series_id = ''0in'', name = ''lower_tumour'', x_col = 0, y_col = 0, z_col = 2\<rparr>]"

text \<open>A table with the keys \<open>2\<close>, \<open>abc\<close> and \<open>1\<close>.\<close>

definition mixed_rows :: "string row list" where
  "mixed_rows =
     [\<lparr>series_id = ''2'', name = ''lower_tumour'', x_col = 3, y_col = 4, z_col = 12\<rparr>,
      \<lparr>series_id = ''abc'', name = ''lower_tumour'', x_col = 0, y_col = 0, z_col = 1\<rparr>,
      \<lparr>series_id = ''1'', name = ''lower_tumour'', x_col = 0, y_col = 0, z_col = 2\<rparr>]"

text \<open>A table with the keys \<open>25in\<close>, \<open>7\<close> and \<open>0in\<close>.\<close>

definition phase_and_number_rows :: "string row list" where
  "phase_and_number_rows =
     [\<lparr>series_id = ''25in'', name = ''lower_tumour'', x_col = 3, y_col = 4, z_col = 12\<rparr>,
      \<lparr>series_id = ''7'', name = ''lower_tumour'', x_col = 0, y_col = 0, z_col = 1\<rparr>,
      \<lparr>series_id = ''0in'', name = ''lower_tumour'', x_col = 0, y_col = 0, z_col = 2\<rparr>]"

text \<open>A table of one structure, \<open>middle_tumour\<close>, seen at the phase 0in only.\<close>

definition middle_rows :: "stats_row list" where
  "middle_rows =
     [\<lparr>csv_series_id = Some ''0in'', csv_name = Some ''middle_tumour'', csv_z = Finite 10\<rparr>]"

section \<open>Properties of the array operations\<close>

lemma broadcast_rev_same: "broadcast_rev s s = Some s"
  by (induction s) simp_all

lemma broadcast_shapes_same: "broadcast_shapes s s = Some s"
  by (simp add: broadcast_shapes_def broadcast_rev_same)

lemma concat_chunks: "concat (chunks k n xs) = take (k * n) xs"
proof (induction k arbitrary: xs)
  case 0
  show ?case by simp
next
  case (Suc k)
  have "take n xs @ take (k * n) (drop n xs) = take (n + k * n) xs"
    by (simp add: take_add)
  with Suc show ?case by simp
qed

lemma length_chunks:
  "length xs = k * n \<Longrightarrow> c \<in> set (chunks k n xs) \<Longrightarrow> length c = n"
proof (induction k arbitrary: xs)
  case 0
  then show ?case by simp
next
  case (Suc k)
  from Suc.prems(1) have rest: "length (drop n xs) = k * n" by simp
  from Suc.prems(2) have "c = take n xs \<or> c \<in> set (chunks k n (drop n xs))" by simp
  then show ?case
  proof
    assume "c = take n xs"
    with Suc.prems(1) show ?thesis by simp
  next
    assume "c \<in> set (chunks k n (drop n xs))"
    with rest show ?thesis by (rule Suc.IH)
  qed
qed

lemma broadcast_data_same:
  "length xs = prod_list s \<Longrightarrow> broadcast_data s s xs = xs"
proof (induction s arbitrary: xs)
  case Nil
  show ?case by simp
next
  case (Cons d ts)
  have len: "length xs = d * prod_list ts" using Cons.prems by simp
  have "map (broadcast_data ts ts) (chunks d (prod_list ts) xs) = chunks d (prod_list ts) xs"
    by (rule map_idI) (simp add: Cons.IH length_chunks [OF len])
  then show ?case using len by (simp add: concat_chunks)
qed

lemma logical_and_same_shape:
  assumes "wf_array a" and "wf_array b" and "shape a = shape b"
  shows "logical_and a b = Inr \<lparr>shape = shape a, data = map2 (\<and>) (data a) (data b)\<rparr>"
  using assms
  by (simp add: logical_and_def broadcast_shapes_same broadcast_data_same wf_array_def)

section \<open>Properties of the overlap scorer\<close>

lemma npsum_astype_bool: "npsum (astype_bool a) = int (count_true a)"
  by (simp add: npsum_def astype_bool_def count_true_def filter_map comp_def)

lemma filter_map2_and:
  "length (filter id (map2 (\<and>) (map p xs) (map q ys))) =
   length (filter (\<lambda>(u, v). p u \<and> q v) (zip xs ys))"
  by (induction xs ys rule: list_induct2') simp_all

lemma filter_zip_le_left:
  "length (filter (\<lambda>(u, v). p u \<and> q v) (zip xs ys)) \<le> length (filter p xs)"
  by (induction xs ys rule: list_induct2') (simp_all add: le_SucI)

lemma filter_zip_le_right:
  "length (filter (\<lambda>(u, v). p u \<and> q v) (zip xs ys)) \<le> length (filter q ys)"
  by (induction xs ys rule: list_induct2') (simp_all add: le_SucI)

lemma count_both_le: "2 * count_both a b \<le> count_true a + count_true b"
  using filter_zip_le_left [of truthy truthy "data a" "data b"]
        filter_zip_le_right [of truthy truthy "data a" "data b"]
  by (simp add: count_both_def count_true_def)

lemma dice_score_same_shape:
  assumes "wf_array a" and "wf_array b" and "shape a = shape b"
  shows "dice_score a b =
         Inr (if count_true a + count_true b = 0 then 1
              else 2 * real (count_both a b) / real (count_true a + count_true b))"
proof -
  have wa: "wf_array (astype_bool a)" and wb: "wf_array (astype_bool b)"
    using assms by (simp_all add: wf_array_def astype_bool_def)
  have sh: "shape (astype_bool a) = shape (astype_bool b)"
    using assms by (simp add: astype_bool_def)
  have inter: "npsum \<lparr>shape = shape (astype_bool a),
      data = map2 (\<and>) (data (astype_bool a)) (data (astype_bool b))\<rparr> = int (count_both a b)"
    using filter_map2_and [of truthy "data a" truthy "data b"]
    by (simp add: npsum_def astype_bool_def count_both_def)
  show ?thesis
    unfolding dice_score_def Let_def logical_and_same_shape [OF wa wb sh] sum.case inter
      npsum_astype_bool
    by (simp del: of_nat_add add: of_nat_add [symmetric])
qed

text \<open>
  C1. For two arrays of the same shape, \<open>dice_score\<close> returns twice the number of voxels
  true in both, divided by the sum of the numbers of true voxels of each, whenever that
  sum is not zero; and the value returned lies between 0 and 1.
\<close>

theorem dice_score_formula:
  assumes "wf_array a" and "wf_array b" and "shape a = shape b"
  shows "\<exists>s. dice_score a b = Inr s \<and>
           (count_true a + count_true b \<noteq> 0 \<longrightarrow>
              s = 2 * real (count_both a b) / real (count_true a + count_true b)) \<and>
           0 \<le> s \<and> s \<le> 1"
proof -
  let ?t = "count_true a + count_true b"
  let ?s = "if ?t = 0 then 1 else 2 * real (count_both a b) / real ?t"
  have "real (2 * count_both a b) \<le> real ?t"
    using count_both_le [of a b] by (rule of_nat_mono)
  then have "?t \<noteq> 0 \<Longrightarrow> 2 * real (count_both a b) / real ?t \<le> 1"
    by (simp only: divide_le_eq_1 of_nat_mult of_nat_numeral of_nat_0_less_iff) simp
  then have "0 \<le> ?s \<and> ?s \<le> 1" by simp
  moreover have "dice_score a b = Inr ?s" by (rule dice_score_same_shape [OF assms])
  ultimately show ?thesis by auto
qed

theorem dice_score_formula_witness:
  "wf_array mask_a \<and> wf_array mask_b \<and> shape mask_a = shape mask_b \<and>
   count_true mask_a + count_true mask_b = 5 \<and> count_both mask_a mask_b = 2 \<and>
   dice_score mask_a mask_b = Inr (4 / 5)"
proof -
  have wa: "wf_array mask_a" and wb: "wf_array mask_b"
    by (simp_all add: wf_array_def mask_a_def mask_b_def)
  have sh: "shape mask_a = shape mask_b" by (simp add: mask_a_def mask_b_def)
  have t: "count_true mask_a + count_true mask_b = 5"
    by (simp add: count_true_def mask_a_def mask_b_def)
  have i: "count_both mask_a mask_b = 2"
    by (simp add: count_both_def mask_a_def mask_b_def)
  from dice_score_formula [OF wa wb sh] t i
  have "dice_score mask_a mask_b = Inr (4 / 5)" by auto
  with wa wb sh t i show ?thesis by simp
qed

text \<open>
  C4. For two masks of the same shape in which no voxel is true, \<open>dice_score\<close> returns
  exactly 1.
\<close>

theorem dice_score_both_empty:
  assumes "shape a = shape b" and "count_true a = 0" and "count_true b = 0"
  shows "dice_score a b = Inr 1"
proof -
  have "npsum (astype_bool a) = 0" and "npsum (astype_bool b) = 0"
    using assms(2,3) by (simp_all add: npsum_astype_bool)
  moreover have "\<exists>both. logical_and (astype_bool a) (astype_bool b) = Inr both"
    using assms(1) by (simp add: logical_and_def astype_bool_def broadcast_shapes_same)
  ultimately show ?thesis by (auto simp: dice_score_def)
qed

theorem dice_score_both_empty_witness:
  "count_true empty_mask = 0 \<and> dice_score empty_mask empty_mask = Inr 1"
proof -
  have e: "count_true empty_mask = 0" by (simp add: count_true_def empty_mask_def)
  from dice_score_both_empty [OF refl e e] e show ?thesis by simp
qed

section \<open>Properties of the batch drivers\<close>

text \<open>
  In \<^verbatim>\<open>chat_dice.py\<close> the two shapes are compared before \<open>dice_score\<close> is called:
  two volumes of different shapes give a row without a score, and a row with a score
  comes from two volumes of one shape.
\<close>

lemma evaluate_tumor_shape_mismatch:
  assumes "fs (path_join (path_join base m1) (s1 @ ''_'' @ t @ ''.nii.gz'')) = Some (Nifti v1)"
    and "fs (path_join (path_join base m2) (s2 @ ''_'' @ t @ ''.nii.gz'')) = Some (Nifti v2)"
    and "shape v1 \<noteq> shape v2"
  shows "evaluate_tumor fs base m1 s1 m2 s2 t =
         Inr \<lparr>tumor = t,
              modality1_path = Path (path_join (path_join base m1) (s1 @ ''_'' @ t @ ''.nii.gz'')),
              modality2_path = Path (path_join (path_join base m2) (s2 @ ''_'' @ t @ ''.nii.gz'')),
              dice_score_cell = NA,
              note_cell = ShapeMismatch (shape v1) (shape v2)\<rparr>"
  using assms by (simp add: evaluate_tumor_def exists_def load_nifti_def gt_half_def)

lemma evaluate_tumor_scored:
  assumes "evaluate_tumor fs base m1 s1 m2 s2 t = Inr r" and "dice_score_cell r = Score x"
  shows "\<exists>v1 v2. fs (path_join (path_join base m1) (s1 @ ''_'' @ t @ ''.nii.gz'')) = Some (Nifti v1) \<and>
           fs (path_join (path_join base m2) (s2 @ ''_'' @ t @ ''.nii.gz'')) = Some (Nifti v2) \<and>
           shape v1 = shape v2"
  using assms
  by (auto simp: evaluate_tumor_def exists_def load_nifti_def gt_half_def Let_def
      split: if_splits option.splits disk_file.splits sum.splits)

lemma dice_score_slice: "dice_score (gt_half gt_volume) (gt_half slice_volume) = Inr (4 / 3)"
  by (simp add: dice_score_def gt_half_def gt_volume_def slice_volume_def astype_bool_def
      logical_and_def broadcast_shapes_def npsum_def eval_nat_numeral)

lemma py_round_four_thirds: "py_round (4 / 3) 4 = 13333 / 10000"
  by (simp add: py_round_def Let_def)

text \<open>
  C2. The claim is that a pair of masks of different shapes is never scored. The folder
  script has no comparison of shapes: the single-slice volume is broadcast against the
  ground truth and the pair gets a score, which here is even above 1.
\<close>

theorem dice_score_folder_scores_shape_mismatch:
  "shape gt_volume \<noteq> shape slice_volume \<and>
   dice_score_folder folder_fs [''30_middle_tumour.nii.gz'', ''31_middle_tumour.nii.gz''] []
       ''seg/30_middle_tumour.nii.gz'' ''seg'' =
     Inr [\<lparr>filename = ''31_middle_tumour.nii.gz'',
           folder_dice_score = Score (13333 / 10000),
           itv_volume_mm3 = NotAvailable\<rparr>]"
  by (simp add: dice_score_folder_def load_nifti_def folder_fs_def basename_def
      List.map_filter_simps compare_file_def path_join_def endswith_def score_file_def
      dice_score_slice py_round_four_thirds split_once_def py_int_def strip_def whitespace_def
      nat_literal_def digit_value_def)
    (simp add: gt_volume_def slice_volume_def)

section \<open>The two binarisations\<close>

lemma gt_half_truthy: "gt_half_scalar v \<Longrightarrow> truthy v"
  by (cases v) simp_all

lemma count_true_gt_half: "count_true (gt_half a) = length (filter gt_half_scalar (data a))"
  by (simp add: count_true_def gt_half_def filter_map comp_def)

lemma filter_length_mono:
  "(\<And>x. p x \<Longrightarrow> q x) \<Longrightarrow> length (filter p xs) \<le> length (filter q xs)"
  by (induction xs) (auto simp: le_SucI)

lemma filter_length_strict:
  assumes "\<And>x. p x \<Longrightarrow> q x" and "v \<in> set xs" and "q v" and "\<not> p v"
  shows "length (filter p xs) < length (filter q xs)"
  using assms(2)
proof (induction xs)
  case Nil
  then show ?case by simp
next
  case (Cons x xs)
  have le: "length (filter p xs) \<le> length (filter q xs)"
    by (rule filter_length_mono) (rule assms(1))
  show ?case
  proof (cases "x = v")
    case True
    with le assms(3,4) show ?thesis by simp
  next
    case False
    with Cons have "length (filter p xs) < length (filter q xs)" by simp
    with assms(1) [of x] show ?thesis by auto
  qed
qed

text \<open>
  C10, as amended. \<open>dice_score\<close> binarises with the truthiness cast and not with the
  threshold: a voxel value above 0 and at most 0.5 is foreground for the cast and
  background for the threshold, so an array holding such a value has strictly more
  foreground voxels for \<open>dice_score\<close> called directly than after thresholding.
\<close>

theorem astype_bool_counts_faint_voxels:
  assumes "Float x \<in> set (data a)" and "0 < x" and "x \<le> 1 / 2"
  shows "truthy (Float x) \<and> \<not> gt_half_scalar (Float x) \<and>
         count_true (gt_half a) < count_true a"
proof -
  have t: "truthy (Float x)" and g: "\<not> gt_half_scalar (Float x)"
    using assms(2,3) by simp_all
  have "length (filter gt_half_scalar (data a)) < length (filter truthy (data a))"
    using gt_half_truthy assms(1) t g by (rule filter_length_strict)
  then have "count_true (gt_half a) < count_true a"
    unfolding count_true_gt_half by (simp add: count_true_def)
  with t g show ?thesis by simp
qed

text \<open>
  At this input the score without thresholding, 1, differs from the score after
  thresholding, 2/3.
\<close>

theorem astype_bool_counts_faint_voxels_witness:
  "count_true (gt_half faint_and_bright) < count_true faint_and_bright \<and>
   dice_score faint_and_bright bright = Inr 1 \<and>
   dice_score (gt_half faint_and_bright) (gt_half bright) = Inr (2 / 3)"
proof -
  have "Float (3 / 10) \<in> set (data faint_and_bright)" by (simp add: faint_and_bright_def)
  from astype_bool_counts_faint_voxels [OF this]
  have "count_true (gt_half faint_and_bright) < count_true faint_and_bright" by simp
  moreover have "dice_score faint_and_bright bright = Inr 1"
    by (simp add: dice_score_def faint_and_bright_def bright_def astype_bool_def
        logical_and_def broadcast_shapes_def npsum_def eval_nat_numeral)
  moreover have "dice_score (gt_half faint_and_bright) (gt_half bright) = Inr (2 / 3)"
    by (simp add: dice_score_def gt_half_def faint_and_bright_def bright_def astype_bool_def
        logical_and_def broadcast_shapes_def npsum_def eval_nat_numeral)
  ultimately show ?thesis by simp
qed

text \<open>
  C10 as stated fails: an array may hold a value above 0 and at most 0.5 and score the
  same with and without thresholding. Two copies of a volume whose only voxel is 0.3
  score 1 when passed directly (one common foreground voxel) and 1 after thresholding
  (both masks empty).
\<close>

theorem faint_same_score_counterexample:
  "Float (3 / 10) \<in> set (data faint) \<and>
   dice_score faint faint = Inr 1 \<and>
   dice_score (gt_half faint) (gt_half faint) = Inr 1"
  by (simp add: dice_score_def gt_half_def faint_def astype_bool_def logical_and_def
      broadcast_shapes_def npsum_def)

section \<open>Properties of the displacement along z\<close>

lemma find_filter_Cons: "filter p xs = y # ys \<Longrightarrow> find p xs = Some y"
  by (induction xs) (auto split: if_splits)

lemma find_Some_member: "find p xs = Some y \<Longrightarrow> y \<in> set xs \<and> p y"
  by (induction xs) (auto split: if_splits)

lemma sorts_by_key_sort_key: "sorts_by_key sort_key"
  by (simp add: sorts_by_key_def)

lemma sorts_by_key_set: "sorts_by_key srt \<Longrightarrow> set (srt key rows) = set rows"
  unfolding sorts_by_key_def by (metis mset_eq_setD)

lemma sorts_by_key_sorted: "sorts_by_key srt \<Longrightarrow> sorted (map key (srt key rows))"
  unfolding sorts_by_key_def by blast

text \<open>Where no two rows have the same key, every sort returns the same table.\<close>

lemma sorter_unique:
  assumes "sorts_by_key srt" and "distinct (map key rows)"
  shows "srt key rows = sort_key key rows"
proof -
  let ?xs = "srt key rows" and ?ys = "sort_key key rows"
  have m: "mset ?xs = mset rows" using assms(1) by (simp add: sorts_by_key_def)
  then have mk: "mset (map key ?xs) = mset (map key rows)" by (metis mset_map)
  have d1: "distinct (map key ?xs)" using mk assms(2) by (metis mset_eq_imp_distinct_iff)
  have d2: "distinct (map key ?ys)"
    using assms(2) by (metis mset_eq_imp_distinct_iff mset_map mset_sort)
  have s: "set (map key ?xs) = set (map key ?ys)"
    using sorts_by_key_set [OF assms(1)] by simp
  have "map key ?xs = map key ?ys"
    using sorts_by_key_sorted [OF assms(1)] d1 d2 s
    by (intro sorted_distinct_set_unique) simp_all
  moreover have "inj_on key (set ?xs \<union> set ?ys)"
    using assms(2) sorts_by_key_set [OF assms(1)] by (simp add: distinct_map)
  ultimately show ?thesis by (simp add: inj_on_map_eq_map)
qed

lemma select_phases_sorted:
  assumes "sorts_by_key srt"
  shows "sorted (map (\<lambda>r. phase_code (csv_series_id r)) (select_phases srt tumour_name rows))"
  unfolding select_phases_def Let_def by (rule sorts_by_key_sorted [OF assms])

lemma select_phases_labels:
  assumes "sorts_by_key srt"
  shows "set (map csv_series_id (select_phases srt tumour_name rows)) =
         {Some (lower (strip l)) | l.
            (\<exists>r \<in> set rows. csv_name r = Some tumour_name \<and> csv_series_id r = Some l) \<and>
            lower (strip l) \<in> set PHASE_ORDER}"
proof -
  have "set (map csv_series_id (select_phases srt tumour_name rows)) =
        (\<lambda>r. map_option (\<lambda>s. lower (strip s)) (csv_series_id r)) `
          {r \<in> set rows. csv_name r = Some tumour_name \<and>
             (case map_option (\<lambda>s. lower (strip s)) (csv_series_id r) of
                None \<Rightarrow> False | Some l \<Rightarrow> l \<in> set PHASE_ORDER)}"
    by (simp add: select_phases_def Let_def sorts_by_key_set [OF assms] filter_map comp_def
        image_image)
  also have "\<dots> = {Some (lower (strip l)) | l.
            (\<exists>r \<in> set rows. csv_name r = Some tumour_name \<and> csv_series_id r = Some l) \<and>
            lower (strip l) \<in> set PHASE_ORDER}"
    by (auto simp: image_iff split: option.splits) force
  finally show ?thesis .
qed

lemma process_structure_csv_result:
  assumes "tables file_path = Some (StringSeries rows)"
    and "process_structure_csv srt tables file_path tumour_name reference_phase = Inr out"
  shows "\<exists>ref. find (\<lambda>r. csv_series_id r = Some reference_phase)
                 (select_phases srt tumour_name rows) = Some ref \<and>
           out = map (\<lambda>r. (csv_series_id r, fsub (csv_z r) (csv_z ref)))
                   (select_phases srt tumour_name rows)"
  using assms
  by (auto simp: process_structure_csv_def Let_def find_filter_Cons
      split: if_splits list.splits)

lemma compute_displacement_result:
  assumes "compute_displacement srt df reference_phase = Inr out"
  shows "\<exists>ref. find (\<lambda>r. phase r = Some reference_phase)
                 (srt phase_key (filter (\<lambda>r. axis r = Some ''z'') df)) = Some ref \<and>
           out = map (\<lambda>r. (phase r, fsub (com r) (com ref)))
                   (srt phase_key (filter (\<lambda>r. axis r = Some ''z'') df))"
  using assms
  by (auto simp: compute_displacement_def Let_def find_filter_Cons
      split: if_splits list.splits)

text \<open>
  In \<^verbatim>\<open>displacement_plotter_realdata.py\<close> the output is in the order of the canonical
  sequence, and its labels are the normalised labels of the structure's rows that are
  canonical phases.
\<close>

lemma process_structure_csv_sorted:
  assumes "sorts_by_key srt" and "tables file_path = Some (StringSeries rows)"
    and "process_structure_csv srt tables file_path tumour_name reference_phase = Inr out"
  shows "sorted (map (\<lambda>p. phase_code (fst p)) out)"
proof -
  from process_structure_csv_result [OF assms(2,3)] obtain ref where
    "find (\<lambda>r. csv_series_id r = Some reference_phase) (select_phases srt tumour_name rows)
       = Some ref"
    and "out = map (\<lambda>r. (csv_series_id r, fsub (csv_z r) (csv_z ref)))
                 (select_phases srt tumour_name rows)"
    by blast
  then show ?thesis
    using select_phases_sorted [OF assms(1), of tumour_name rows] by (simp add: comp_def)
qed

lemma process_structure_csv_labels:
  assumes "sorts_by_key srt" and "tables file_path = Some (StringSeries rows)"
    and "process_structure_csv srt tables file_path tumour_name reference_phase = Inr out"
  shows "set (map fst out) =
         {Some (lower (strip l)) | l.
            (\<exists>r \<in> set rows. csv_name r = Some tumour_name \<and> csv_series_id r = Some l) \<and>
            lower (strip l) \<in> set PHASE_ORDER}"
proof -
  from process_structure_csv_result [OF assms(2,3)] obtain ref where
    "find (\<lambda>r. csv_series_id r = Some reference_phase) (select_phases srt tumour_name rows)
       = Some ref"
    and "out = map (\<lambda>r. (csv_series_id r, fsub (csv_z r) (csv_z ref)))
                 (select_phases srt tumour_name rows)"
    by blast
  then have "map fst out = map csv_series_id (select_phases srt tumour_name rows)"
    by (simp add: comp_def)
  then show ?thesis by (simp only: select_phases_labels [OF assms(1)])
qed

lemma compute_displacement_inhale_sort_key:
  "compute_displacement sort_key inhale_axis_rows ''0in'' =
     Inr [(Some ''0in'', Finite 0), (Some ''100in'', Finite 6), (Some ''25in'', Finite 4)]"
  by (simp add: compute_displacement_def inhale_axis_rows_def phase_key_def)

text \<open>
  C3. The claim is that the output is in the order of the canonical phase sequence and
  not in the lexical order of the labels. \<^verbatim>\<open>compute_displacement\<close> of
  \<^verbatim>\<open>batch_displacement_processor.py\<close> sorts the labels as strings: whatever sort
  \<^verbatim>\<open>sort_values\<close> runs, 100in comes before 25in, which the canonical sequence puts
  after it.
\<close>

theorem compute_displacement_lexical_order:
  assumes "sorts_by_key sort_values"
  shows "compute_displacement sort_values inhale_axis_rows ''0in'' =
           Inr [(Some ''0in'', Finite 0), (Some ''100in'', Finite 6), (Some ''25in'', Finite 4)] \<and>
         index_of PHASE_ORDER ''25in'' < index_of PHASE_ORDER ''100in''"
proof -
  have "distinct (map phase_key (filter (\<lambda>r. axis r = Some ''z'') inhale_axis_rows))"
    by (simp add: inhale_axis_rows_def phase_key_def)
  from sorter_unique [OF assms this]
  have "compute_displacement sort_values inhale_axis_rows ''0in'' =
        compute_displacement sort_key inhale_axis_rows ''0in''"
    by (simp add: compute_displacement_def)
  then show ?thesis
    by (simp add: compute_displacement_inhale_sort_key PHASE_ORDER_def)
qed

theorem compute_displacement_lexical_order_witness:
  "compute_displacement sort_key inhale_axis_rows ''0in'' =
     Inr [(Some ''0in'', Finite 0), (Some ''100in'', Finite 6), (Some ''25in'', Finite 4)] \<and>
   index_of PHASE_ORDER ''25in'' < index_of PHASE_ORDER ''100in''"
  by (rule compute_displacement_lexical_order [OF sorts_by_key_sort_key])

text \<open>
  C6, as amended. When the reference key is not among the records that were filtered and
  sorted, the call fails with a \<^verbatim>\<open>ValueError\<close> whose message names the reference key:
  in \<^verbatim>\<open>process_structure_csv\<close> together with the path of the table, in
  \<^verbatim>\<open>compute_displacement\<close> alone.
\<close>

theorem reference_not_found:
  "(tables file_path = Some (StringSeries rows) \<and>
    Some reference_phase \<notin> set (map csv_series_id (select_phases sort_values tumour_name rows)) \<longrightarrow>
      process_structure_csv sort_values tables file_path tumour_name reference_phase =
        Inl (ValueError (''Reference phase '' @ [CHR 0x27] @ reference_phase @ [CHR 0x27]
                           @ '' not found in '' @ file_path))) \<and>
   (Some reference_phase \<notin>
      set (map phase (sort_rows phase_key (filter (\<lambda>r. axis r = Some ''z'') df))) \<longrightarrow>
      compute_displacement sort_rows df reference_phase =
        Inl (ValueError (''Reference phase '' @ [CHR 0x27] @ reference_phase @ [CHR 0x27]
                           @ '' not found in data.'')))"
  by (simp add: process_structure_csv_def compute_displacement_def Let_def)

theorem reference_not_found_witness:
  "process_structure_csv sort_key [''scan.csv'' \<mapsto> StringSeries t1_rows] ''scan.csv'' ''t1''
       ''50in'' =
     Inl (ValueError (''Reference phase '' @ [CHR 0x27] @ ''50in'' @ [CHR 0x27]
                        @ '' not found in scan.csv'')) \<and>
   compute_displacement sort_key t1_axis_rows ''50in'' =
     Inl (ValueError (''Reference phase '' @ [CHR 0x27] @ ''50in'' @ [CHR 0x27]
                        @ '' not found in data.''))"
proof -
  have a: "[''scan.csv'' \<mapsto> StringSeries t1_rows] ''scan.csv'' = Some (StringSeries t1_rows)"
    by simp
  have b: "Some ''50in'' \<notin> set (map csv_series_id (select_phases sort_key ''t1'' t1_rows))"
    by (simp add: select_phases_def t1_rows_def lower_def strip_def lower_char_def
        whitespace_def PHASE_ORDER_def phase_code_def)
  have c: "Some ''50in'' \<notin>
      set (map phase (sort_key phase_key (filter (\<lambda>r. axis r = Some ''z'') t1_axis_rows)))"
    by (simp add: t1_axis_rows_def)
  from reference_not_found [where tables = "[''scan.csv'' \<mapsto> StringSeries t1_rows]"
      and file_path = "''scan.csv''" and rows = t1_rows and reference_phase = "''50in''"
      and tumour_name = "''t1''" and df = t1_axis_rows and sort_values = sort_key
      and sort_rows = sort_key] a b c
  show ?thesis by simp
qed

text \<open>
  C6 as stated fails: the message does not name the structure. For the structure
  \<open>middle_tumour\<close> and the absent reference 50in the message is
  \<^verbatim>\<open>Reference phase '50in' not found in scan.csv\<close>.
\<close>

theorem reference_error_omits_structure_counterexample:
  "process_structure_csv sort_key [''scan.csv'' \<mapsto> StringSeries middle_rows] ''scan.csv''
       ''middle_tumour'' ''50in'' =
     Inl (ValueError (''Reference phase '' @ [CHR 0x27] @ ''50in'' @ [CHR 0x27]
                        @ '' not found in scan.csv'')) \<and>
   \<not> str_contains (''Reference phase '' @ [CHR 0x27] @ ''50in'' @ [CHR 0x27]
                     @ '' not found in scan.csv'') ''middle_tumour''"
  by (simp add: process_structure_csv_def select_phases_def middle_rows_def lower_def strip_def
      lower_char_def whitespace_def PHASE_ORDER_def phase_code_def)

text \<open>
  C7, as amended. In the mode along z the displacement of every record of the output is
  the float difference of its z coordinate and the z coordinate of the reference record,
  which is the first record of the reference phase in the sorted table. When the z
  coordinate of the reference record is a finite number, the entry of the reference
  record is exactly 0, and the displacement of every record with a finite z coordinate is
  that coordinate minus the one of the reference record. This holds of
  \<^verbatim>\<open>process_structure_csv\<close> and of \<^verbatim>\<open>compute_displacement\<close>, whatever sort
  \<^verbatim>\<open>sort_values\<close> runs.
\<close>

theorem z_displacement_relative_to_reference:
  "(tables file_path = Some (StringSeries rows) \<and>
    process_structure_csv sort_values tables file_path tumour_name reference_phase = Inr out \<longrightarrow>
      (\<exists>ref. find (\<lambda>r. csv_series_id r = Some reference_phase)
                (select_phases sort_values tumour_name rows) = Some ref \<and>
         out = map (\<lambda>r. (csv_series_id r, fsub (csv_z r) (csv_z ref)))
                 (select_phases sort_values tumour_name rows) \<and>
         (\<forall>c. csv_z ref = Finite c \<longrightarrow>
            (Some reference_phase, Finite 0) \<in> set out \<and>
            (\<forall>r a. r \<in> set (select_phases sort_values tumour_name rows) \<and> csv_z r = Finite a \<longrightarrow>
               (csv_series_id r, Finite (a - c)) \<in> set out)))) \<and>
   (compute_displacement sort_rows df reference_phase = Inr out' \<longrightarrow>
      (\<exists>ref. find (\<lambda>r. phase r = Some reference_phase)
                (sort_rows phase_key (filter (\<lambda>r. axis r = Some ''z'') df)) = Some ref \<and>
         out' = map (\<lambda>r. (phase r, fsub (com r) (com ref)))
                  (sort_rows phase_key (filter (\<lambda>r. axis r = Some ''z'') df)) \<and>
         (\<forall>c. com ref = Finite c \<longrightarrow>
            (Some reference_phase, Finite 0) \<in> set out' \<and>
            (\<forall>r a. r \<in> set (sort_rows phase_key (filter (\<lambda>r. axis r = Some ''z'') df)) \<and>
                 com r = Finite a \<longrightarrow>
               (phase r, Finite (a - c)) \<in> set out'))))"
proof (intro conjI impI)
  assume a: "tables file_path = Some (StringSeries rows) \<and>
    process_structure_csv sort_values tables file_path tumour_name reference_phase = Inr out"
  let ?df = "select_phases sort_values tumour_name rows"
  from process_structure_csv_result [of tables file_path rows sort_values tumour_name
      reference_phase out] a
  obtain ref where f: "find (\<lambda>r. csv_series_id r = Some reference_phase) ?df = Some ref"
    and o: "out = map (\<lambda>r. (csv_series_id r, fsub (csv_z r) (csv_z ref))) ?df"
    by blast
  from find_Some_member [OF f]
  have m: "ref \<in> set ?df" and l: "csv_series_id ref = Some reference_phase"
    by simp_all
  have "\<forall>c. csv_z ref = Finite c \<longrightarrow>
          (Some reference_phase, Finite 0) \<in> set out \<and>
          (\<forall>r a. r \<in> set ?df \<and> csv_z r = Finite a \<longrightarrow>
             (csv_series_id r, Finite (a - c)) \<in> set out)"
  proof (intro allI impI conjI)
    fix c assume c: "csv_z ref = Finite c"
    have "(csv_series_id ref, fsub (csv_z ref) (csv_z ref)) \<in> set out"
      using m o by force
    then show "(Some reference_phase, Finite 0) \<in> set out" using l c by simp
  next
    fix c r a assume c: "csv_z ref = Finite c" and r: "r \<in> set ?df \<and> csv_z r = Finite a"
    then have "(csv_series_id r, fsub (csv_z r) (csv_z ref)) \<in> set out"
      using o by force
    then show "(csv_series_id r, Finite (a - c)) \<in> set out" using c r by simp
  qed
  with f o show "\<exists>ref. find (\<lambda>r. csv_series_id r = Some reference_phase) ?df = Some ref \<and>
         out = map (\<lambda>r. (csv_series_id r, fsub (csv_z r) (csv_z ref))) ?df \<and>
         (\<forall>c. csv_z ref = Finite c \<longrightarrow>
            (Some reference_phase, Finite 0) \<in> set out \<and>
            (\<forall>r a. r \<in> set ?df \<and> csv_z r = Finite a \<longrightarrow>
               (csv_series_id r, Finite (a - c)) \<in> set out))"
    by blast
next
  assume a: "compute_displacement sort_rows df reference_phase = Inr out'"
  let ?df = "sort_rows phase_key (filter (\<lambda>r. axis r = Some ''z'') df)"
  from compute_displacement_result [OF a]
  obtain ref where f: "find (\<lambda>r. phase r = Some reference_phase) ?df = Some ref"
    and o: "out' = map (\<lambda>r. (phase r, fsub (com r) (com ref))) ?df"
    by blast
  from find_Some_member [OF f]
  have m: "ref \<in> set ?df" and l: "phase ref = Some reference_phase"
    by simp_all
  have "\<forall>c. com ref = Finite c \<longrightarrow>
          (Some reference_phase, Finite 0) \<in> set out' \<and>
          (\<forall>r a. r \<in> set ?df \<and> com r = Finite a \<longrightarrow> (phase r, Finite (a - c)) \<in> set out')"
  proof (intro allI impI conjI)
    fix c assume c: "com ref = Finite c"
    have "(phase ref, fsub (com ref) (com ref)) \<in> set out'"
      using m o by force
    then show "(Some reference_phase, Finite 0) \<in> set out'" using l c by simp
  next
    fix c r a assume c: "com ref = Finite c" and r: "r \<in> set ?df \<and> com r = Finite a"
    then have "(phase r, fsub (com r) (com ref)) \<in> set out'"
      using o by force
    then show "(phase r, Finite (a - c)) \<in> set out'" using c r by simp
  qed
  with f o show "\<exists>ref. find (\<lambda>r. phase r = Some reference_phase) ?df = Some ref \<and>
         out' = map (\<lambda>r. (phase r, fsub (com r) (com ref))) ?df \<and>
         (\<forall>c. com ref = Finite c \<longrightarrow>
            (Some reference_phase, Finite 0) \<in> set out' \<and>
            (\<forall>r a. r \<in> set ?df \<and> com r = Finite a \<longrightarrow> (phase r, Finite (a - c)) \<in> set out'))"
    by blast
qed

lemma t1_rows_displacement:
  "process_structure_csv sort_key [''scan.csv'' \<mapsto> StringSeries t1_rows] ''scan.csv'' ''t1''
       ''0in'' =
     Inr [(Some ''0in'', Finite 0), (Some ''25in'', Finite (5 / 2))]"
  by (simp add: process_structure_csv_def select_phases_def t1_rows_def lower_def strip_def
      lower_char_def whitespace_def PHASE_ORDER_def phase_code_def)

lemma t1_axis_rows_displacement:
  "compute_displacement sort_key t1_axis_rows ''0in'' =
     Inr [(Some ''0in'', Finite 0), (Some ''25in'', Finite (5 / 2))]"
  by (simp add: compute_displacement_def t1_axis_rows_def phase_key_def)

text \<open>
  The end-to-end scenario: the rows (0in, t1, z = 10.0) and (25in, t1, z = 12.5) with
  the reference 0in give (0in, 0.0), (25in, 2.5).
\<close>

theorem z_displacement_relative_to_reference_witness:
  "process_structure_csv sort_key [''scan.csv'' \<mapsto> StringSeries t1_rows] ''scan.csv'' ''t1''
       ''0in'' =
     Inr [(Some ''0in'', Finite 0), (Some ''25in'', Finite (5 / 2))] \<and>
   compute_displacement sort_key t1_axis_rows ''0in'' =
     Inr [(Some ''0in'', Finite 0), (Some ''25in'', Finite (5 / 2))] \<and>
   (\<exists>ref. find (\<lambda>r. csv_series_id r = Some ''0in'') (select_phases sort_key ''t1'' t1_rows)
             = Some ref \<and> csv_z ref = Finite 10) \<and>
   (\<exists>ref. find (\<lambda>r. phase r = Some ''0in'')
             (sort_key phase_key (filter (\<lambda>r. axis r = Some ''z'') t1_axis_rows)) = Some ref \<and>
           com ref = Finite 10)"
proof -
  have a: "[''scan.csv'' \<mapsto> StringSeries t1_rows] ''scan.csv'' = Some (StringSeries t1_rows)"
    by simp
  have s: "select_phases sort_key ''t1'' t1_rows =
      [\<lparr>csv_series_id = Some ''0in'', csv_name = Some ''t1'', csv_z = Finite 10\<rparr>,
       \<lparr>csv_series_id = Some ''25in'', csv_name = Some ''t1'', csv_z = Finite (25 / 2)\<rparr>]"
    by (simp add: select_phases_def t1_rows_def lower_def strip_def lower_char_def
        whitespace_def PHASE_ORDER_def phase_code_def)
  have t: "sort_key phase_key (filter (\<lambda>r. axis r = Some ''z'') t1_axis_rows) =
      [\<lparr>phase = Some ''0in'', axis = Some ''z'', com = Finite 10\<rparr>,
       \<lparr>phase = Some ''25in'', axis = Some ''z'', com = Finite (25 / 2)\<rparr>]"
    by (simp add: t1_axis_rows_def phase_key_def)
  note th = z_displacement_relative_to_reference
    [where tables = "[''scan.csv'' \<mapsto> StringSeries t1_rows]" and file_path = "''scan.csv''"
      and rows = t1_rows and sort_values = sort_key and tumour_name = "''t1''"
      and reference_phase = "''0in''"
      and out = "[(Some ''0in'', Finite 0), (Some ''25in'', Finite (5 / 2))]"
      and sort_rows = sort_key and df = t1_axis_rows
      and out' = "[(Some ''0in'', Finite 0), (Some ''25in'', Finite (5 / 2))]"]
  from th [THEN conjunct1] a t1_rows_displacement
  have "\<exists>ref. find (\<lambda>r. csv_series_id r = Some ''0in'') (select_phases sort_key ''t1'' t1_rows)
                = Some ref" by blast
  then have p: "\<exists>ref. find (\<lambda>r. csv_series_id r = Some ''0in'')
                  (select_phases sort_key ''t1'' t1_rows) = Some ref \<and> csv_z ref = Finite 10"
    by (simp add: s)
  from th [THEN conjunct2] t1_axis_rows_displacement
  have "\<exists>ref. find (\<lambda>r. phase r = Some ''0in'')
             (sort_key phase_key (filter (\<lambda>r. axis r = Some ''z'') t1_axis_rows)) = Some ref"
    by blast
  then have q: "\<exists>ref. find (\<lambda>r. phase r = Some ''0in'')
             (sort_key phase_key (filter (\<lambda>r. axis r = Some ''z'') t1_axis_rows)) = Some ref \<and>
           com ref = Finite 10"
    by (simp add: t)
  from p q t1_rows_displacement t1_axis_rows_displacement show ?thesis by simp
qed

text \<open>
  C7 as stated fails where it says that the entry of the reference phase is exactly 0:
  neither function drops a row with a missing cell, and with the z cell of the row of 0in
  empty the reference is NaN and so is every entry of the output, the one of 0in too.
\<close>

theorem missing_reference_z_counterexample:
  "process_structure_csv sort_key [''scan.csv'' \<mapsto> StringSeries gap_rows] ''scan.csv'' ''t1''
       ''0in'' =
     Inr [(Some ''0in'', NotANumber), (Some ''25in'', NotANumber)] \<and>
   compute_displacement sort_key gap_axis_rows ''0in'' =
     Inr [(Some ''0in'', NotANumber), (Some ''25in'', NotANumber)]"
  by (simp add: process_structure_csv_def select_phases_def gap_rows_def lower_def strip_def
      lower_char_def whitespace_def PHASE_ORDER_def phase_code_def
      compute_displacement_def gap_axis_rows_def phase_key_def)

section \<open>Properties of the ordering of \<^verbatim>\<open>tumour_displacement.py\<close>\<close>

lemma for_each_total:
  "(\<And>x. x \<in> set xs \<Longrightarrow> \<exists>y. f x = Inr y) \<Longrightarrow>
   \<exists>ys. for_each f xs = Inr ys \<and> length ys = length xs"
proof (induction xs)
  case Nil
  show ?case by simp
next
  case (Cons x xs)
  from Cons.prems obtain y where y: "f x = Inr y" by force
  from Cons obtain ys where "for_each f xs = Inr ys" "length ys = length xs" by force
  with y show ?case by simp
qed

lemma astype_float_total:
  assumes "list_all (\<lambda>r. is_numeric to_float (series_id r)) rows"
  shows "\<exists>floats. astype_float to_float rows = Inr floats \<and> length floats = length rows"
  unfolding astype_float_def
proof (rule for_each_total)
  fix r assume "r \<in> set rows"
  with assms have "is_numeric to_float (series_id r)" by (simp add: list_all_iff)
  then show "\<exists>y. (case to_float (series_id r) of
                None \<Rightarrow> Inl (ValueError ''could not convert string to float'')
              | Some v \<Rightarrow> Inr (with_series_id v r)) = Inr y"
    by (simp add: is_numeric_def split: option.splits)
qed

lemma order_rows_total: "\<exists>out. order_rows to_float df = Inr out"
proof (cases df)
  case (NumericFrame rows)
  then show ?thesis by (simp add: order_rows_def)
next
  case (ObjectFrame rows)
  show ?thesis
  proof (cases "list_all (\<lambda>r. is_numeric to_float (series_id r)) rows")
    case True
    from astype_float_total [OF True] obtain floats where
      "astype_float to_float rows = Inr floats" by blast
    with True ObjectFrame show ?thesis by (simp add: order_rows_def)
  next
    case False
    with ObjectFrame show ?thesis by (simp add: order_rows_def Let_def)
  qed
qed

lemma index_of_le_length: "index_of xs v \<le> length xs"
  by (induction xs) simp_all

lemma index_of_less_length: "v \<in> set xs \<Longrightarrow> index_of xs v < length xs"
  by (induction xs) auto

lemma index_of_absent: "v \<notin> set xs \<Longrightarrow> index_of xs v = length xs"
  by (induction xs) auto

text \<open>
  The position among the categories that occur in the table orders two of them as the
  position in the whole sequence does.
\<close>

lemma index_of_filter_mono:
  assumes "p a" and "p b" and "a \<in> set xs" and "b \<in> set xs"
    and "index_of (filter p xs) a \<le> index_of (filter p xs) b"
  shows "index_of xs a \<le> index_of xs b"
  using assms(3-5)
proof (induction xs)
  case Nil
  then show ?case by simp
next
  case (Cons u us)
  show ?case
  proof (cases "u = a")
    case True
    then show ?thesis by simp
  next
    case na: False
    show ?thesis
    proof (cases "u = b")
      case True
      with na assms(2) Cons.prems(3) show ?thesis by simp
    next
      case nb: False
      with na Cons.prems have "a \<in> set us" and "b \<in> set us"
        and "index_of (filter p us) a \<le> index_of (filter p us) b"
        by (auto split: if_splits)
      then have "index_of us a \<le> index_of us b" by (rule Cons.IH)
      with na nb show ?thesis by simp
    qed
  qed
qed

lemma sorted_map_transfer:
  "sorted (map k xs) \<Longrightarrow> (\<And>a b. a \<in> set xs \<Longrightarrow> b \<in> set xs \<Longrightarrow> k a \<le> k b \<Longrightarrow> g a \<le> g b)
     \<Longrightarrow> sorted (map g xs)"
  by (induction xs) auto

lemma order_rows_phase_branch:
  assumes "\<not> list_all (\<lambda>r. is_numeric to_float (series_id r)) rows"
  shows "order_rows to_float (ObjectFrame rows) =
         Inr (map (\<lambda>r. with_series_id
                          (Category
                             (if series_id r \<in> set (filter (\<lambda>p. p \<in> set (map series_id rows))
                                                        PHASE_ORDER)
                              then Some (series_id r) else None)) r)
                (sort_key (\<lambda>r. index_of (filter (\<lambda>p. p \<in> set (map series_id rows)) PHASE_ORDER)
                                  (series_id r)) rows))"
  using assms unfolding order_rows_def PHASE_ORDER_def [symmetric] by (simp add: Let_def)

text \<open>
  When a key is not numeric, the ordered table holds every row of the table, each with
  the phase category of its label for a key, in the order of the ranks of the categories.
\<close>

lemma order_rows_fallback:
  assumes "r \<in> set rows" and "\<not> is_numeric to_float (series_id r)"
  shows "\<exists>out. order_rows to_float (ObjectFrame rows) = Inr out \<and>
           mset out =
             mset (map (\<lambda>r. with_series_id (Category (phase_category (series_id r))) r) rows) \<and>
           sorted (map (\<lambda>q. category_rank (series_id q)) out)"
proof -
  let ?existing = "filter (\<lambda>p. p \<in> set (map series_id rows)) PHASE_ORDER"
  let ?k = "\<lambda>r. index_of ?existing (series_id r)"
  let ?conv = "\<lambda>r. with_series_id
                  (Category (if series_id r \<in> set ?existing then Some (series_id r) else None)) r"
  let ?conv' = "\<lambda>r. with_series_id (Category (phase_category (series_id r))) r"
  let ?g = "\<lambda>r. phase_code (phase_category (series_id r))"
  let ?out = "map ?conv (sort_key ?k rows)"
  from assms have "\<not> list_all (\<lambda>r. is_numeric to_float (series_id r)) rows"
    by (auto simp: list_all_iff)
  then have res: "order_rows to_float (ObjectFrame rows) = Inr ?out"
    by (rule order_rows_phase_branch)
  have ex: "series_id q \<in> set ?existing \<longleftrightarrow> series_id q \<in> set PHASE_ORDER"
    if "q \<in> set rows" for q
    using that by auto
  have out: "?out = map ?conv' (sort_key ?k rows)"
    by (rule map_cong) (simp_all add: phase_category_def)
  have m: "mset ?out = mset (map ?conv' rows)"
    unfolding out by simp
  have mono: "?g a \<le> ?g b" if a: "a \<in> set rows" and b: "b \<in> set rows" and le: "?k a \<le> ?k b"
    for a b
  proof (cases "series_id a \<in> set PHASE_ORDER")
    case ain: True
    show ?thesis
    proof (cases "series_id b \<in> set PHASE_ORDER")
      case True
      have "index_of PHASE_ORDER (series_id a) \<le> index_of PHASE_ORDER (series_id b)"
      proof (rule index_of_filter_mono [where p = "\<lambda>p. p \<in> set (map series_id rows)"])
        show "series_id a \<in> set (map series_id rows)" using a by simp
        show "series_id b \<in> set (map series_id rows)" using b by simp
        show "series_id a \<in> set PHASE_ORDER" by (rule ain)
        show "series_id b \<in> set PHASE_ORDER" by (rule True)
        show "index_of ?existing (series_id a) \<le> index_of ?existing (series_id b)" by (rule le)
      qed
      with ain True show ?thesis by (simp add: phase_category_def phase_code_def)
    next
      case False
      with ain index_of_le_length [of PHASE_ORDER "series_id a"] show ?thesis
        by (simp add: phase_category_def phase_code_def)
    qed
  next
    case aout: False
    then have "series_id a \<notin> set ?existing" by simp
    then have "?k a = length ?existing" by (rule index_of_absent)
    with le have "length ?existing \<le> ?k b" by simp
    then have "series_id b \<notin> set ?existing"
      using index_of_less_length [of "series_id b" ?existing] by auto
    with ex [OF b] have "series_id b \<notin> set PHASE_ORDER" by simp
    with aout show ?thesis by (simp add: phase_category_def phase_code_def)
  qed
  have "sorted (map ?g (sort_key ?k rows))"
  proof (rule sorted_map_transfer)
    show "sorted (map ?k (sort_key ?k rows))" by (rule sorted_sort_key)
  next
    fix a b assume "a \<in> set (sort_key ?k rows)" and "b \<in> set (sort_key ?k rows)"
      and "?k a \<le> ?k b"
    then show "?g a \<le> ?g b" using mono by simp
  qed
  then have s: "sorted (map (\<lambda>q. category_rank (series_id q)) ?out)"
    unfolding out by (simp add: comp_def with_series_id_def category_rank_def)
  from res m s show ?thesis by blast
qed

text \<open>
  C5, as amended. The ordering step never raises, whatever the keys. When a key of the
  table, as the filter of lines 9 to 11 left it, is not numeric, the table is ordered by
  phase category instead: every record is kept with its name and coordinates, its key is
  replaced by its phase category (the label itself when it is one of the eight canonical
  labels as written, NaN otherwise), and the records are sorted by the position of their
  category in the canonical sequence, those of NaN last.
\<close>

theorem ordering_raises_no_parsing_error:
  "(\<exists>out. ordered_frame object_dtype to_float df = Inr out) \<and>
   (\<forall>rows r. drop_average object_dtype df = ObjectFrame rows \<and> r \<in> set rows \<and>
        \<not> is_numeric to_float (series_id r) \<longrightarrow>
      (\<exists>out. ordered_frame object_dtype to_float df = Inr out \<and>
         mset out =
           mset (map (\<lambda>r. with_series_id (Category (phase_category (series_id r))) r) rows) \<and>
         sorted (map (\<lambda>q. category_rank (series_id q)) out)))"
proof (intro conjI allI impI)
  show "\<exists>out. ordered_frame object_dtype to_float df = Inr out"
    unfolding ordered_frame_def by (rule order_rows_total)
next
  fix rows r
  assume a: "drop_average object_dtype df = ObjectFrame rows \<and> r \<in> set rows \<and>
    \<not> is_numeric to_float (series_id r)"
  then have "r \<in> set rows" and "\<not> is_numeric to_float (series_id r)" by simp_all
  from order_rows_fallback [OF this] a
  show "\<exists>out. ordered_frame object_dtype to_float df = Inr out \<and>
         mset out =
           mset (map (\<lambda>r. with_series_id (Category (phase_category (series_id r))) r) rows) \<and>
         sorted (map (\<lambda>q. category_rank (series_id q)) out)"
    by (simp add: ordered_frame_def)
qed

lemma phase_and_number_rows_ordered:
  "ordered_frame object_dtype integer_literal (ObjectFrame phase_and_number_rows) =
     Inr [\<lparr>series_id = Category (Some ''0in''), name = ''lower_tumour'',
            x_col = 0, y_col = 0, z_col = 2\<rparr>,
          \<lparr>series_id = Category (Some ''25in''), name = ''lower_tumour'',
            x_col = 3, y_col = 4, z_col = 12\<rparr>,
          \<lparr>series_id = Category None, name = ''lower_tumour'', x_col = 0, y_col = 0, z_col = 1\<rparr>]"
  by (cases object_dtype)
    (simp_all add: ordered_frame_def drop_average_def phase_and_number_rows_def lower_def
      lower_char_def order_rows_def is_numeric_def integer_literal_def py_int_def strip_def
      whitespace_def nat_literal_def digit_value_def with_series_id_def)

text \<open>
  With the keys 25in, 7 and 0in the key 7 is numeric and the other two are not: the
  table comes out in the order 0in, 25in, NaN, the row of the key 7 last.
\<close>

theorem ordering_raises_no_parsing_error_witness:
  "drop_average True (ObjectFrame phase_and_number_rows) = ObjectFrame phase_and_number_rows \<and>
   \<not> is_numeric integer_literal ''25in'' \<and>
   ordered_frame True integer_literal (ObjectFrame phase_and_number_rows) =
     Inr [\<lparr>series_id = Category (Some ''0in''), name = ''lower_tumour'',
            x_col = 0, y_col = 0, z_col = 2\<rparr>,
          \<lparr>series_id = Category (Some ''25in''), name = ''lower_tumour'',
            x_col = 3, y_col = 4, z_col = 12\<rparr>,
          \<lparr>series_id = Category None, name = ''lower_tumour'', x_col = 0, y_col = 0, z_col = 1\<rparr>] \<and>
   (\<exists>out. ordered_frame True integer_literal (ObjectFrame phase_and_number_rows) = Inr out \<and>
      mset out =
        mset (map (\<lambda>r. with_series_id (Category (phase_category (series_id r))) r)
                phase_and_number_rows) \<and>
      sorted (map (\<lambda>q. category_rank (series_id q)) out))"
proof -
  let ?r = "\<lparr>series_id = ''25in'', name = ''lower_tumour'', x_col = 3, y_col = 4, z_col = 12\<rparr>"
  have d: "drop_average True (ObjectFrame phase_and_number_rows) =
      ObjectFrame phase_and_number_rows"
    by (simp add: drop_average_def phase_and_number_rows_def lower_def lower_char_def)
  have m: "?r \<in> set phase_and_number_rows" by (simp add: phase_and_number_rows_def)
  have n: "\<not> is_numeric integer_literal ''25in''"
    by (simp add: is_numeric_def integer_literal_def py_int_def strip_def whitespace_def
        nat_literal_def digit_value_def)
  note fallback = ordering_raises_no_parsing_error
    [of True integer_literal "ObjectFrame phase_and_number_rows", THEN conjunct2, rule_format,
      of phase_and_number_rows ?r]
  have "\<exists>out. ordered_frame True integer_literal (ObjectFrame phase_and_number_rows) = Inr out \<and>
      mset out =
        mset (map (\<lambda>r. with_series_id (Category (phase_category (series_id r))) r)
                phase_and_number_rows) \<and>
      sorted (map (\<lambda>q. category_rank (series_id q)) out)"
    by (rule fallback) (simp add: d m n)
  with d n phase_and_number_rows_ordered [of True] show ?thesis by simp
qed

text \<open>
  C5 as stated fails: with the keys 2, abc and 1 the script does not fail with a parsing
  error. It falls back to the ordering by phase; no key is a phase, so the three rows stay
  as they were, with NaN for their keys. This is so whether line 9 takes the column for
  one of dtype \<^verbatim>\<open>object\<close> or not.
\<close>

theorem non_numeric_key_counterexample:
  "ordered_frame True integer_literal (ObjectFrame mixed_rows) =
     Inr [\<lparr>series_id = Category None, name = ''lower_tumour'', x_col = 3, y_col = 4, z_col = 12\<rparr>,
          \<lparr>series_id = Category None, name = ''lower_tumour'', x_col = 0, y_col = 0, z_col = 1\<rparr>,
          \<lparr>series_id = Category None, name = ''lower_tumour'', x_col = 0, y_col = 0, z_col = 2\<rparr>] \<and>
   ordered_frame False integer_literal (ObjectFrame mixed_rows) =
     Inr [\<lparr>series_id = Category None, name = ''lower_tumour'', x_col = 3, y_col = 4, z_col = 12\<rparr>,
          \<lparr>series_id = Category None, name = ''lower_tumour'', x_col = 0, y_col = 0, z_col = 1\<rparr>,
          \<lparr>series_id = Category None, name = ''lower_tumour'', x_col = 0, y_col = 0, z_col = 2\<rparr>]"
  by (simp add: ordered_frame_def drop_average_def mixed_rows_def lower_def lower_char_def
      order_rows_def is_numeric_def integer_literal_def py_int_def strip_def whitespace_def
      nat_literal_def digit_value_def with_series_id_def)

text \<open>
  C9. The claim is that labels are stripped and lowercased before they are matched and
  that rows with an unrecognised label are dropped.
  \<^verbatim>\<open>displacement_plotter_realdata.py\<close> does both (\<open>process_structure_csv_labels\<close>).
  \<^verbatim>\<open>tumour_displacement.py\<close> matches the labels as they are and keeps every row: the
  label \<open>'' 25IN ''\<close>, which normalises to 25in, and the label \<open>foo\<close> both become NaN and
  their rows stay in the table, after the row of 0in. This is so whether line 9 takes the
  column for one of dtype \<^verbatim>\<open>object\<close> or not.
\<close>

theorem ordered_frame_keeps_unrecognised_labels:
  "lower (strip '' 25IN '') = ''25in'' \<and>
   ordered_frame object_dtype integer_literal (ObjectFrame untidy_rows) =
     Inr [\<lparr>series_id = Category (Some ''0in''), name = ''lower_tumour'',
            x_col = 0, y_col = 0, z_col = 2\<rparr>,
          \<lparr>series_id = Category None, name = ''lower_tumour'', x_col = 3, y_col = 4, z_col = 12\<rparr>,
          \<lparr>series_id = Category None, name = ''lower_tumour'', x_col = 0, y_col = 0, z_col = 1\<rparr>]"
  by (cases object_dtype)
    (simp_all add: ordered_frame_def drop_average_def untidy_rows_def lower_def lower_char_def
      order_rows_def is_numeric_def integer_literal_def py_int_def strip_def whitespace_def
      nat_literal_def digit_value_def with_series_id_def)

section \<open>Properties of the displacement in three dimensions\<close>

lemma euclidean_sqrt: "euclidean r = sqrt ((x_col r)\<^sup>2 + (y_col r)\<^sup>2 + (z_col r)\<^sup>2)"
  by (simp add: euclidean_def powr_half_sqrt)

text \<open>
  C8. In the mode of three dimensions the displacement reported for a record is the
  Euclidean norm of its own position (x, y, z): no coordinate of another record, and so
  of no reference record, enters it.
\<close>

theorem displacement_is_norm_of_position:
  "displacement_series df tumour =
     (if filter (\<lambda>r. name r = tumour) df = [] then None
      else Some (map (\<lambda>r. (series_id r, sqrt ((x_col r)\<^sup>2 + (y_col r)\<^sup>2 + (z_col r)\<^sup>2)))
                   (filter (\<lambda>r. name r = tumour) df)))"
  by (simp add: displacement_series_def Let_def euclidean_sqrt)

theorem displacement_is_norm_of_position_witness:
  "displacement_series mixed_rows ''lower_tumour'' = Some [(''2'', 13), (''abc'', 1), (''1'', 2)]"
proof -
  have "sqrt 169 = 13" using real_sqrt_abs [of 13] by simp
  moreover have "sqrt 4 = 2" using real_sqrt_abs [of 2] by simp
  ultimately show ?thesis
    using displacement_is_norm_of_position [of mixed_rows "''lower_tumour''"]
    by (simp add: mixed_rows_def)
qed

end
